theory Spec2Isabelle
  imports Complex_Main "HOL-Library.AList"
begin

section \<open>The eBay reconciliation engine of the warehouse tracker\<close>

text \<open>
  The development embeds the sync engine of the server file that defines \<open>pullFromEbay\<close>
  (the object \<open>ebayAPI\<close> with \<open>pullFromEbay\<close>, lines 931-1047, \<open>pushToEbay\<close>, lines
  1052-1176, and \<open>smartSyncAll\<close>, lines 1181-1326, their helpers, lines 746-926, and the
  data access layer \<open>data\<close> they call, lines 71-135, with \<open>formatItem\<close>, lines 208-221) as
  functions over an explicit state: the local inventory and the list of the requests that
  eBay accepted.

  Conventions of the embedding:
  \<^item> JavaScript numbers that hold quantities are \<open>int\<close>, prices are \<open>rat\<close>; no arithmetic
    is done on prices, they are only compared and copied.
  \<^item> A point in time is its millisecond value, an \<open>int\<close>; every \<open>new Date()\<close> of one call
    reads the field \<open>now\<close> of the environment. The two time stamps that the engine
    compares, \<open>lastModified\<close> and \<open>lastSyncTime\<close>, keep their representation (a \<open>Date\<close>
    object, or the ISO string that the local branch of \<open>data.updateItem\<close> writes and that
    a reload of the JSON file gives), since \<open>>\<close> depends on it.
  \<^item> \<open>null\<close> and \<open>undefined\<close> are \<open>None\<close>.
  \<^item> A remote listing carries the numbers that \<open>parseInt\<close> and \<open>parseFloat\<close> give on its
    quantity and price tags (\<open>None\<close> for \<open>NaN\<close>): the engine reads the two tags only through
    these conversions.
  \<^item> An \<open>await\<close>ed call that can reject (the backing store in its MongoDB branch, the
    eBay REST call, the fetch of the listings) asks the environment whether it rejects,
    and with which message; a rejection is the value \<open>Inl message\<close>. The effect of a store
    call that does not reject is the one of the local branch of \<open>data\<close>, which is all in
    the source.
  \<^item> An object used as a dictionary is an association list in insertion order; no key is
    the name of a property that every object inherits.
\<close>

subsection \<open>Data model\<close>

text \<open>
  A time stamp as the store holds it: a \<open>Date\<close> object, or the string of \<open>toISOString()\<close>,
  each with its millisecond value.
\<close>

datatype stamp = DateValue int | IsoText int

record hist_entry =
  h_date :: int
  h_action :: string
  h_qty :: int
  h_newTotal :: int
  h_note :: string

record ebay_snapshot =
  s_quantity :: int
  s_price :: rat
  s_title :: string
  s_description :: string
  s_condition :: string
  s_takenAt :: int

record ebay_sync =
  snapshot :: "ebay_snapshot option"
  lastSyncTime :: "stamp option"
  ebayItemId :: "string option"
  status :: string

record item =
  sku :: string
  itemCode :: string
  drawerNumber :: string
  positionNumber :: string
  fullLocation :: string
  price :: rat
  currentQty :: int
  description :: string
  condition :: "string option"
  categoryId :: "string option"
  categoryName :: "string option"
  itemSpecifics :: "(string \<times> string) list"
  dateAdded :: int
  lastModified :: stamp
  lastSyncedQty :: "int option"
  ebaySync :: "ebay_sync option"
  history :: "hist_entry list"

text \<open>
  One element of the array \<open>getActiveListings\<close> returns. The listing has no
  \<open>description\<close>, \<open>condition\<close>, \<open>categoryId\<close> or \<open>categoryName\<close> property: reading one gives
  \<open>undefined\<close>.
\<close>

record ebay_item =
  e_itemId :: string
  e_sku :: string
  e_title :: string
  e_price :: "rat option"
  e_quantity :: "int option"

record listing_data =
  l_items :: "ebay_item list"
  l_error :: "string option"

text \<open>The object \<open>formatItem\<close> builds: its keys are capitalised, and \<open>sku\<close> is not one of them.\<close>

record formatted =
  SKU :: string
  ItemCode :: string
  DrawerNumber :: string
  PositionNumber :: string
  FullLocation :: string
  Price :: rat
  Quantity :: int
  Description :: string
  DateAdded :: int
  LastModified :: stamp

text \<open>The argument of \<open>syncItemToEbay\<close> and the body it sends to eBay.\<close>

record warehouse_item =
  w_SKU :: string
  w_Price :: rat
  w_Quantity :: int
  w_Description :: string
  w_FullLocation :: string
  w_Condition :: string
  w_ItemSpecifics :: "(string \<times> string) list"

record inventory_item_data =
  r_quantity :: int
  r_condition :: string
  r_title :: string
  r_description :: string
  r_aspects :: "(string \<times> string list) list"

text \<open>The second argument of \<open>data.updateItem\<close>: the keys that are present.\<close>

record updates =
  u_currentQty :: "int option"
  u_price :: "rat option"
  u_description :: "string option"
  u_lastSyncedQty :: "int option"
  u_ebaySync :: "ebay_sync option"

datatype data_call = GetAllItems | GetItem | CreateItem | UpdateItem | AddHistory | SaveAccount

record env =
  accountId :: string
  now :: int
  listings :: "string + listing_data"
  dataFault :: "data_call \<Rightarrow> string \<Rightarrow> string option"
  ebayFault :: "string \<Rightarrow> string option"

record state =
  inventory :: "(string \<times> item) list"
  ebayWrites :: "(string \<times> inventory_item_data) list"

subsection \<open>JavaScript operators the engine uses\<close>

text \<open>\<open>x || d\<close> for a number \<open>x\<close> that may be \<open>NaN\<close>: \<open>NaN\<close> and \<open>0\<close> are falsy.\<close>

definition num_or :: "'a::zero option \<Rightarrow> 'a \<Rightarrow> 'a" where
  "num_or x d = (case x of None \<Rightarrow> d | Some v \<Rightarrow> if v = 0 then d else v)"

text \<open>\<open>s || d\<close> for a string: the empty string is falsy.\<close>

definition str_or :: "string \<Rightarrow> string \<Rightarrow> string" where
  "str_or s d = (if s = [] then d else s)"

definition opt_str_or :: "string option \<Rightarrow> string \<Rightarrow> string" where
  "opt_str_or s d = (case s of None \<Rightarrow> d | Some v \<Rightarrow> str_or v d)"

text \<open>
  \<open>a > b\<close> on two time stamps. Two \<open>Date\<close> objects are compared by their time values, and
  two ISO strings as strings, which for the years 0000 to 9999 is the order of their times.
  A \<open>Date\<close> against a string compares a number with \<open>NaN\<close>, which is false.
\<close>

fun later :: "stamp \<Rightarrow> stamp \<Rightarrow> bool" where
  "later (DateValue a) (DateValue b) = (a > b)"
| "later (IsoText a) (IsoText b) = (a > b)"
| "later (DateValue a) (IsoText b) = False"
| "later (IsoText a) (DateValue b) = False"


text \<open>A value used as a property key: \<open>undefined\<close> becomes the string \<open>undefined\<close>.\<close>

definition propKey :: "string option \<Rightarrow> string" where
  "propKey k = (case k of None \<Rightarrow> ''undefined'' | Some s \<Rightarrow> s)"

function showNat :: "nat \<Rightarrow> string" where
  "showNat n = (if n < 10 then [char_of (48 + n)] else showNat (n div 10) @ [char_of (48 + n mod 10)])"
  by pat_completeness auto
termination
  by (relation "measure id") auto

definition showInt :: "int \<Rightarrow> string" where
  "showInt i = (if i < 0 then CHR ''-'' # showNat (nat (- i)) else showNat (nat i))"

text \<open>
  \<open>Object.entries\<close> and \<open>Object.values\<close> list the keys that are array indices first, in
  ascending numeric order, then the other keys in the order they were inserted.
\<close>

definition isDigit :: "char \<Rightarrow> bool" where
  "isDigit c = (48 \<le> (of_char c :: nat) \<and> (of_char c :: nat) \<le> 57)"

definition keyNum :: "string \<Rightarrow> int" where
  "keyNum s = foldl (\<lambda>n c. 10 * n + (of_char c - 48)) 0 s"

definition isArrayIndex :: "string \<Rightarrow> bool" where
  "isArrayIndex s = (s \<noteq> [] \<and> list_all isDigit s \<and> (s = ''0'' \<or> hd s \<noteq> CHR ''0'')
     \<and> keyNum s < 4294967295)"

definition objectEntries :: "(string \<times> 'v) list \<Rightarrow> (string \<times> 'v) list" where
  "objectEntries al =
     sort_key (\<lambda>p. keyNum (fst p)) (filter (\<lambda>p. isArrayIndex (fst p)) al)
     @ filter (\<lambda>p. \<not> isArrayIndex (fst p)) al"

subsection \<open>The data access layer\<close>

definition formatItem :: "item \<Rightarrow> formatted" where
  "formatItem it = \<lparr> SKU = sku it, ItemCode = itemCode it, DrawerNumber = drawerNumber it,
     PositionNumber = positionNumber it, FullLocation = fullLocation it,
     Price = num_or (Some (price it)) 0, Quantity = currentQty it,
     Description = description it, DateAdded = dateAdded it, LastModified = lastModified it \<rparr>"

text \<open>
  The expression \<open>item.sku\<close> on an element of \<open>data.getAllItems()\<close>: the element is a
  \<open>formatItem\<close> object, which has the key \<open>SKU\<close> and no key \<open>sku\<close>, so the value is
  \<open>undefined\<close>.
\<close>

definition formatted_sku :: "formatted \<Rightarrow> string option" where
  "formatted_sku f = None"

definition getAllItems :: "env \<Rightarrow> state \<Rightarrow> string + formatted list" where
  "getAllItems ev st =
     (case dataFault ev GetAllItems [] of
        Some m \<Rightarrow> Inl m
      | None \<Rightarrow> Inr (map (formatItem \<circ> snd) (objectEntries (inventory st))))"

definition getItem :: "env \<Rightarrow> string \<Rightarrow> state \<Rightarrow> string + item option" where
  "getItem ev k st =
     (case dataFault ev GetItem k of
        Some m \<Rightarrow> Inl m
      | None \<Rightarrow> Inr (map_of (inventory st) k))"

definition createItem :: "env \<Rightarrow> item \<Rightarrow> state \<Rightarrow> (string + unit) \<times> state" where
  "createItem ev itemData st =
     (case dataFault ev CreateItem (sku itemData) of
        Some m \<Rightarrow> (Inl m, st)
      | None \<Rightarrow> (Inr (), st\<lparr>inventory := AList.update (sku itemData) itemData (inventory st)\<rparr>))"

text \<open>\<open>Object.assign(item, updates, { lastModified: new Date().toISOString() })\<close>.\<close>

definition assign :: "int \<Rightarrow> updates \<Rightarrow> item \<Rightarrow> item" where
  "assign t u it =
     it\<lparr> currentQty := (case u_currentQty u of None \<Rightarrow> currentQty it | Some q \<Rightarrow> q),
         price := (case u_price u of None \<Rightarrow> price it | Some p \<Rightarrow> p),
         description := (case u_description u of None \<Rightarrow> description it | Some d \<Rightarrow> d),
         lastSyncedQty := (case u_lastSyncedQty u of None \<Rightarrow> lastSyncedQty it | Some q \<Rightarrow> Some q),
         ebaySync := (case u_ebaySync u of None \<Rightarrow> ebaySync it | Some e \<Rightarrow> Some e),
         lastModified := IsoText t \<rparr>"

definition updateItem :: "env \<Rightarrow> string \<Rightarrow> updates \<Rightarrow> state \<Rightarrow> (string + unit) \<times> state" where
  "updateItem ev k u st =
     (case dataFault ev UpdateItem k of
        Some m \<Rightarrow> (Inl m, st)
      | None \<Rightarrow>
          (case map_of (inventory st) k of
             None \<Rightarrow> (Inr (), st)
           | Some it \<Rightarrow> (Inr (), st\<lparr>inventory := AList.update k (assign (now ev) u it) (inventory st)\<rparr>)))"

definition addHistory :: "env \<Rightarrow> string \<Rightarrow> hist_entry \<Rightarrow> state \<Rightarrow> (string + unit) \<times> state" where
  "addHistory ev k entry st =
     (case dataFault ev AddHistory k of
        Some m \<Rightarrow> (Inl m, st)
      | None \<Rightarrow>
          (case map_of (inventory st) k of
             None \<Rightarrow> (Inr (), st)
           | Some it \<Rightarrow>
               (Inr (), st\<lparr>inventory := AList.update k (it\<lparr>history := history it @ [entry]\<rparr>) (inventory st)\<rparr>)))"

definition noUpdates :: updates where
  "noUpdates = \<lparr> u_currentQty = None, u_price = None, u_description = None,
     u_lastSyncedQty = None, u_ebaySync = None \<rparr>"

subsection \<open>Sync helper functions\<close>

definition aspectsOf :: "warehouse_item \<Rightarrow> (string \<times> string list) list" where
  "aspectsOf w =
     foldl (\<lambda>a (k, v). if v \<noteq> [] then AList.update k [v] a else a)
       [(''Warehouse Location'', [w_FullLocation w])] (objectEntries (w_ItemSpecifics w))"

definition syncItemToEbay :: "env \<Rightarrow> warehouse_item \<Rightarrow> state \<Rightarrow> (string + unit) \<times> state" where
  "syncItemToEbay ev w st =
     (let itemData = \<lparr> r_quantity = w_Quantity w,
                       r_condition = str_or (w_Condition w) ''NEW'',
                       r_title = str_or (w_Description w) (''Item '' @ w_SKU w),
                       r_description = str_or (w_Description w) [],
                       r_aspects = aspectsOf w \<rparr>
      in case ebayFault ev (w_SKU w) of
           Some m \<Rightarrow> (Inl m, st)
         | None \<Rightarrow>
             (let st' = st\<lparr>ebayWrites := ebayWrites st @ [(w_SKU w, itemData)]\<rparr>
              in case dataFault ev SaveAccount (accountId ev) of
                   Some m \<Rightarrow> (Inl m, st')
                 | None \<Rightarrow> (Inr (), st')))"

definition warehouseItemOf :: "item \<Rightarrow> int \<Rightarrow> warehouse_item" where
  "warehouseItemOf fullItem q =
     \<lparr> w_SKU = sku fullItem, w_Price = num_or (Some (price fullItem)) 0, w_Quantity = q,
       w_Description = description fullItem, w_FullLocation = fullLocation fullItem,
       w_Condition = opt_str_or (condition fullItem) ''NEW'',
       w_ItemSpecifics = itemSpecifics fullItem \<rparr>"

definition captureEbaySnapshot :: "env \<Rightarrow> ebay_item \<Rightarrow> ebay_snapshot" where
  "captureEbaySnapshot ev ebayItem =
     \<lparr> s_quantity = num_or (e_quantity ebayItem) 0, s_price = num_or (e_price ebayItem) 0,
       s_title = str_or (e_title ebayItem) [], s_description = [], s_condition = [],
       s_takenAt = now ev \<rparr>"

definition captureLocalSnapshot :: "env \<Rightarrow> item \<Rightarrow> ebay_snapshot" where
  "captureLocalSnapshot ev localItem =
     \<lparr> s_quantity = num_or (Some (currentQty localItem)) 0,
       s_price = num_or (Some (price localItem)) 0,
       s_title = str_or (description localItem) [],
       s_description = str_or (description localItem) [],
       s_condition = opt_str_or (condition localItem) [],
       s_takenAt = now ev \<rparr>"

text \<open>
  A change descriptor \<open>{field, old, new}\<close>, one constructor for each value of \<open>field\<close>;
  \<open>AcceptAll\<close> is the descriptor \<open>{field: 'all', reason: 'no_snapshot'}\<close>.
\<close>

datatype change =
    AcceptAll
  | QuantityChange int int
  | PriceChange rat rat
  | TitleChange string string

definition detectEbayChanges :: "ebay_item \<Rightarrow> ebay_snapshot option \<Rightarrow> change list" where
  "detectEbayChanges currentEbay snap =
     (case snap of
        None \<Rightarrow> [AcceptAll]
      | Some s \<Rightarrow>
          (let curQty = num_or (e_quantity currentEbay) 0;
               currentPrice = num_or (e_price currentEbay) 0;
               currentTitle = str_or (e_title currentEbay) []
           in (if curQty \<noteq> s_quantity s then [QuantityChange (s_quantity s) curQty] else [])
            @ (if currentPrice \<noteq> s_price s then [PriceChange (s_price s) currentPrice] else [])
            @ (if currentTitle \<noteq> s_title s then [TitleChange (s_title s) currentTitle] else [])))"

definition padStart4 :: "string \<Rightarrow> string" where
  "padStart4 s = replicate (4 - length s) CHR ''0'' @ s"

definition createLocalItemFromEbay :: "env \<Rightarrow> ebay_item \<Rightarrow> item" where
  "createLocalItemFromEbay ev ebayItem =
     (let sk = str_or (e_sku ebayItem) (e_itemId ebayItem);
          code = padStart4 (take 4 sk)
      in \<lparr> sku = sk, itemCode = code, drawerNumber = ''000'', positionNumber = ''00'',
           fullLocation = ''000-00'',
           price = num_or (e_price ebayItem) 0,
           currentQty = num_or (e_quantity ebayItem) 0,
           description = str_or (e_title ebayItem) (''eBay Item '' @ sk),
           condition = None, categoryId = None, categoryName = None, itemSpecifics = [],
           dateAdded = now ev, lastModified = DateValue (now ev),
           lastSyncedQty = Some (num_or (e_quantity ebayItem) 0),
           ebaySync = Some \<lparr> snapshot = Some (captureEbaySnapshot ev ebayItem),
                             lastSyncTime = Some (DateValue (now ev)),
                             ebayItemId = (if e_itemId ebayItem = [] then None else Some (e_itemId ebayItem)),
                             status = ''synced'' \<rparr>,
           history = [\<lparr> h_date = now ev, h_action = ''EBAY_IMPORT'',
                        h_qty = num_or (e_quantity ebayItem) 0,
                        h_newTotal = num_or (e_quantity ebayItem) 0,
                        h_note = ''Imported from eBay listing '' @ str_or (e_itemId ebayItem) sk \<rparr>] \<rparr>)"

subsection \<open>Pull (eBay to local)\<close>

record pull_results =
  pull_created :: "(string \<times> string \<times> string) list"
  pull_updated :: "(string \<times> string list) list"
  pull_skipped :: "(string \<times> string) list"
  pull_errors :: "(string option \<times> string) list"

text \<open>\<open>localItem.ebaySync?.snapshot\<close> and \<open>localItem.ebaySync?.lastSyncTime\<close>.\<close>

definition snapshotOf :: "item \<Rightarrow> ebay_snapshot option" where
  "snapshotOf it = (case ebaySync it of None \<Rightarrow> None | Some e \<Rightarrow> snapshot e)"

definition lastSyncTimeOf :: "item \<Rightarrow> stamp option" where
  "lastSyncTimeOf it = (case ebaySync it of None \<Rightarrow> None | Some e \<Rightarrow> lastSyncTime e)"

text \<open>\<open>snapshot?.quantity ?? item.lastSyncedQty ?? item.currentQty\<close>.\<close>

definition baselineQty :: "ebay_snapshot option \<Rightarrow> item \<Rightarrow> int" where
  "baselineQty snap it =
     (case snap of
        Some s \<Rightarrow> s_quantity s
      | None \<Rightarrow> (case lastSyncedQty it of Some q \<Rightarrow> q | None \<Rightarrow> currentQty it))"

text \<open>\<open>localModified > (lastSyncTime || new Date(0))\<close>.\<close>

definition localIsNewer :: "item \<Rightarrow> bool" where
  "localIsNewer it =
     later (lastModified it) (case lastSyncTimeOf it of None \<Rightarrow> DateValue 0 | Some t \<Rightarrow> t)"

definition saleEntry :: "env \<Rightarrow> int \<Rightarrow> int \<Rightarrow> string \<Rightarrow> hist_entry" where
  "saleEntry ev sold newTot during =
     \<lparr> h_date = now ev, h_action = ''EBAY_SALE'', h_qty = - sold, h_newTotal = newTot,
       h_note = showInt sold @ '' sold on eBay (detected during '' @ during @ '')'' \<rparr>"

text \<open>The body of the loop over the detected changes of one listing (one \<open>change\<close>).\<close>

definition pullChange ::
  "env \<Rightarrow> string \<Rightarrow> item \<Rightarrow> ebay_item \<Rightarrow> change \<Rightarrow> updates \<times> string list \<Rightarrow> state
     \<Rightarrow> (string + updates \<times> string list) \<times> state" where
  "pullChange ev sk localItem ebayItem c acc st =
     (let snap = snapshotOf localItem; upd = fst acc; changedFields = snd acc
      in case c of
        AcceptAll \<Rightarrow>
          (Inr (upd\<lparr> u_price := Some (num_or (e_price ebayItem) (price localItem)),
                     u_description := Some (str_or (e_title ebayItem) (description localItem)) \<rparr>,
                changedFields @ [''price'', ''title'']), st)
      | QuantityChange old new \<Rightarrow>
          (let localChangedSinceSync =
                 (case snap of None \<Rightarrow> True | Some s \<Rightarrow> currentQty localItem \<noteq> s_quantity s)
           in if \<not> localChangedSinceSync then
                (let oldQty = baselineQty snap localItem; newQty = new
                 in if newQty < oldQty then
                      (let sold = oldQty - newQty;
                           q = max 0 (currentQty localItem - sold)
                       in case addHistory ev sk (saleEntry ev sold q ''pull'') st of
                            (Inl m, st') \<Rightarrow> (Inl m, st')
                          | (Inr _, st') \<Rightarrow>
                              (Inr (upd\<lparr>u_currentQty := Some q\<rparr>, changedFields @ [''quantity'']), st'))
                    else (Inr (upd, changedFields @ [''quantity'']), st))
              else if \<not> localIsNewer localItem
                then (Inr (upd, changedFields @ [''quantity'']), st)
                else (Inr (upd, changedFields), st))
      | PriceChange old new \<Rightarrow>
          (let localChangedSinceSync =
                 (case snap of None \<Rightarrow> True | Some s \<Rightarrow> price localItem \<noteq> s_price s)
           in if \<not> localChangedSinceSync then
                (Inr (upd\<lparr>u_price := Some new\<rparr>, changedFields @ [''price'']), st)
              else if \<not> localIsNewer localItem
                then (Inr (upd\<lparr>u_price := Some new\<rparr>, changedFields @ [''price'']), st)
                else (Inr (upd, changedFields), st))
      | TitleChange old new \<Rightarrow>
          (let localChangedSinceSync =
                 (case snap of None \<Rightarrow> True | Some s \<Rightarrow> description localItem \<noteq> s_title s)
           in if \<not> localChangedSinceSync then
                (Inr (upd\<lparr>u_description := Some new\<rparr>, changedFields @ [''title'']), st)
              else if \<not> localIsNewer localItem
                then (Inr (upd\<lparr>u_description := Some new\<rparr>, changedFields @ [''title'']), st)
                else (Inr (upd, changedFields), st)))"

fun pullChanges ::
  "env \<Rightarrow> string \<Rightarrow> item \<Rightarrow> ebay_item \<Rightarrow> change list \<Rightarrow> updates \<times> string list \<Rightarrow> state
     \<Rightarrow> (string + updates \<times> string list) \<times> state" where
  "pullChanges ev sk localItem ebayItem [] acc st = (Inr acc, st)"
| "pullChanges ev sk localItem ebayItem (c # cs) acc st =
     (case pullChange ev sk localItem ebayItem c acc st of
        (Inl m, st') \<Rightarrow> (Inl m, st')
      | (Inr acc', st') \<Rightarrow> pullChanges ev sk localItem ebayItem cs acc' st')"

text \<open>\<open>Object.keys(updates).length > 0\<close>, at the place where it is asked.\<close>

definition hasKeys :: "updates \<Rightarrow> bool" where
  "hasKeys u = (u_currentQty u \<noteq> None \<or> u_price u \<noteq> None \<or> u_description u \<noteq> None)"

text \<open>The branch of the loop body for a listing whose SKU has a local record.\<close>

definition pullExisting ::
  "env \<Rightarrow> string \<Rightarrow> item \<Rightarrow> ebay_item \<Rightarrow> pull_results \<times> state
     \<Rightarrow> (string + unit) \<times> pull_results \<times> state" where
  "pullExisting ev sk localItem ebayItem rs =
     (let results = fst rs; st = snd rs;
          ebayChanges = detectEbayChanges ebayItem (snapshotOf localItem)
      in if ebayChanges = [] then
           (Inr (), results\<lparr>pull_skipped := pull_skipped results @ [(sk, ''No eBay changes'')]\<rparr>, st)
         else
           (case pullChanges ev sk localItem ebayItem ebayChanges (noUpdates, []) st of
              (Inl m, st') \<Rightarrow> (Inl m, results, st')
            | (Inr (upd, changedFields), st') \<Rightarrow>
                if hasKeys upd then
                  (let upd' = upd\<lparr>
                         u_ebaySync := Some \<lparr> snapshot = Some (captureEbaySnapshot ev ebayItem),
                                              lastSyncTime = Some (DateValue (now ev)),
                                              ebayItemId = Some (e_itemId ebayItem),
                                              status = ''synced'' \<rparr>,
                         u_lastSyncedQty := Some (num_or (e_quantity ebayItem) (currentQty localItem)) \<rparr>
                   in case updateItem ev sk upd' st' of
                        (Inl m, st'') \<Rightarrow> (Inl m, results, st'')
                      | (Inr _, st'') \<Rightarrow>
                          (Inr (), results\<lparr>pull_updated := pull_updated results @ [(sk, changedFields)]\<rparr>, st''))
                else
                  (Inr (), results\<lparr>pull_skipped := pull_skipped results @ [(sk, ''Local changes are newer'')]\<rparr>, st')))"

text \<open>The body of the \<open>try\<close> block of \<open>pullFromEbay\<close>, for one listing.\<close>

definition pullItem ::
  "env \<Rightarrow> ebay_item \<Rightarrow> pull_results \<times> state \<Rightarrow> (string + unit) \<times> pull_results \<times> state" where
  "pullItem ev ebayItem rs =
     (let results = fst rs; st = snd rs;
          sk = str_or (e_sku ebayItem) (e_itemId ebayItem)
      in case getItem ev sk st of
           Inl m \<Rightarrow> (Inl m, results, st)
         | Inr None \<Rightarrow>
             (case createItem ev (createLocalItemFromEbay ev ebayItem) st of
                (Inl m, st') \<Rightarrow> (Inl m, results, st')
              | (Inr _, st') \<Rightarrow>
                  (Inr (), results\<lparr>pull_created := pull_created results @ [(sk, e_title ebayItem, ''ebay'')]\<rparr>, st'))
         | Inr (Some localItem) \<Rightarrow> pullExisting ev sk localItem ebayItem rs)"

text \<open>One turn of the \<open>for\<close> loop: the body, and the \<open>catch\<close> that records a failure.\<close>

definition pullStep :: "env \<Rightarrow> ebay_item \<Rightarrow> pull_results \<times> state \<Rightarrow> pull_results \<times> state" where
  "pullStep ev ebayItem rs =
     (case pullItem ev ebayItem rs of
        (Inl m, results, st) \<Rightarrow>
          (results\<lparr>pull_errors := pull_errors results
              @ [(Some (str_or (e_sku ebayItem) (e_itemId ebayItem)), m)]\<rparr>, st)
      | (Inr _, results, st) \<Rightarrow> (results, st))"

fun pullLoop :: "env \<Rightarrow> ebay_item list \<Rightarrow> pull_results \<times> state \<Rightarrow> pull_results \<times> state" where
  "pullLoop ev [] rs = rs"
| "pullLoop ev (ebayItem # rest) rs = pullLoop ev rest (pullStep ev ebayItem rs)"

definition noPullResults :: pull_results where
  "noPullResults = \<lparr> pull_created = [], pull_updated = [], pull_skipped = [], pull_errors = [] \<rparr>"

definition pullFromEbay :: "env \<Rightarrow> state \<Rightarrow> string + pull_results \<times> state" where
  "pullFromEbay ev st =
     (case listings ev of
        Inl m \<Rightarrow> Inl m
      | Inr ebayData \<Rightarrow>
          (case l_error ebayData of
             Some m \<Rightarrow> if m \<noteq> [] then Inl m else Inr (pullLoop ev (l_items ebayData) (noPullResults, st))
           | None \<Rightarrow> Inr (pullLoop ev (l_items ebayData) (noPullResults, st))))"

subsection \<open>Push (local to eBay)\<close>

record push_results =
  push_pushed :: "(string option \<times> string) list"
  push_skipped :: "(string option \<times> string) list"
  push_created :: "(string option \<times> string) list"
  push_errors :: "(string option \<times> string) list"

text \<open>
  The object \<open>ebayInventory\<close>, filled by \<open>ebayInventory[item.sku || item.itemId] = item\<close>
  over the fetched listings; it stays empty when the fetch rejects.
\<close>

definition ebayInventoryOf :: "env \<Rightarrow> (string \<times> ebay_item) list" where
  "ebayInventoryOf ev =
     (case listings ev of
        Inl m \<Rightarrow> []
      | Inr ebayData \<Rightarrow>
          foldl (\<lambda>inv e. AList.update (str_or (e_sku e) (e_itemId e)) e inv) [] (l_items ebayData))"

text \<open>The update that records a completed push in the local record.\<close>

definition syncTracking :: "env \<Rightarrow> item \<Rightarrow> updates" where
  "syncTracking ev fullItem =
     noUpdates\<lparr> u_lastSyncedQty := Some (currentQty fullItem),
                u_ebaySync := Some \<lparr> snapshot = Some (captureLocalSnapshot ev fullItem),
                                     lastSyncTime = Some (DateValue (now ev)),
                                     ebayItemId = None,
                                     status = ''synced'' \<rparr> \<rparr>"

text \<open>
  The reason, if any, that one detected change adds to \<open>skippedReasons\<close>. For a title
  change \<open>localValue\<close> is \<open>null\<close>, which differs from every string.
\<close>

definition pushReason :: "item \<Rightarrow> change \<Rightarrow> string option" where
  "pushReason fullItem c =
     (let snap = snapshotOf fullItem
      in case c of
        AcceptAll \<Rightarrow> None
      | QuantityChange old new \<Rightarrow>
          (let localValue = currentQty fullItem;
               localChangedSinceSync =
                 (case snap of None \<Rightarrow> True | Some s \<Rightarrow> localValue \<noteq> s_quantity s)
           in if \<not> localChangedSinceSync \<and> localValue \<noteq> new then Some ''eBay has newer quantity''
              else if localChangedSinceSync \<and> localValue \<noteq> new then
                (if \<not> localIsNewer fullItem then Some ''eBay quantity is newer'' else None)
              else None)
      | PriceChange old new \<Rightarrow>
          (let localValue = price fullItem;
               localChangedSinceSync =
                 (case snap of None \<Rightarrow> True | Some s \<Rightarrow> localValue \<noteq> s_price s)
           in if \<not> localChangedSinceSync \<and> localValue \<noteq> new then Some ''eBay has newer price''
              else if localChangedSinceSync \<and> localValue \<noteq> new then
                (if \<not> localIsNewer fullItem then Some ''eBay price is newer'' else None)
              else None)
      | TitleChange old new \<Rightarrow>
          (if \<not> localIsNewer fullItem then Some ''eBay title is newer'' else None))"

fun joinWith :: "string \<Rightarrow> string list \<Rightarrow> string" where
  "joinWith sep [] = []"
| "joinWith sep [x] = x"
| "joinWith sep (x # y # ys) = x @ sep @ joinWith sep (y # ys)"

text \<open>The sequence \<open>syncItemToEbay\<close>, then \<open>data.updateItem\<close> with the sync tracking.\<close>

definition pushAndTrack :: "env \<Rightarrow> string \<Rightarrow> item \<Rightarrow> state \<Rightarrow> (string + unit) \<times> state" where
  "pushAndTrack ev k fullItem st =
     (case syncItemToEbay ev (warehouseItemOf fullItem (currentQty fullItem)) st of
        (Inl m, st') \<Rightarrow> (Inl m, st')
      | (Inr _, st') \<Rightarrow> updateItem ev k (syncTracking ev fullItem) st')"

text \<open>
  The body of the \<open>try\<close> block of \<open>pushToEbay\<close> for one element of \<open>localItems\<close>;
  \<open>skv\<close> is the value of \<open>item.sku\<close>.
\<close>

definition pushItem ::
  "env \<Rightarrow> (string \<times> ebay_item) list \<Rightarrow> string option \<Rightarrow> push_results \<times> state
     \<Rightarrow> (string + unit) \<times> push_results \<times> state" where
  "pushItem ev ebayInventory skv rs =
     (let results = fst rs; st = snd rs
      in case getItem ev (propKey skv) st of
           Inl m \<Rightarrow> (Inl m, results, st)
         | Inr None \<Rightarrow> (Inr (), results, st)
         | Inr (Some fullItem) \<Rightarrow>
             (case map_of ebayInventory (propKey skv) of
                None \<Rightarrow>
                  (case pushAndTrack ev (propKey skv) fullItem st of
                     (Inl m, st') \<Rightarrow> (Inl m, results, st')
                   | (Inr _, st') \<Rightarrow>
                       (Inr (), results\<lparr>push_created := push_created results @ [(skv, description fullItem)]\<rparr>, st'))
              | Some ebayItem \<Rightarrow>
                  (let ebayChanges = detectEbayChanges ebayItem (snapshotOf fullItem);
                       skippedReasons = List.map_filter (pushReason fullItem) ebayChanges
                   in if length skippedReasons > 0 \<and> length skippedReasons \<ge> length ebayChanges then
                        (Inr (), results\<lparr>push_skipped := push_skipped results
                            @ [(skv, joinWith '', '' skippedReasons)]\<rparr>, st)
                      else
                        (case pushAndTrack ev (propKey skv) fullItem st of
                           (Inl m, st') \<Rightarrow> (Inl m, results, st')
                         | (Inr _, st') \<Rightarrow>
                             (Inr (), results\<lparr>push_pushed := push_pushed results
                                 @ [(skv, description fullItem)]\<rparr>, st')))))"

definition pushStep ::
  "env \<Rightarrow> (string \<times> ebay_item) list \<Rightarrow> formatted \<Rightarrow> push_results \<times> state \<Rightarrow> push_results \<times> state" where
  "pushStep ev ebayInventory localItem rs =
     (case pushItem ev ebayInventory (formatted_sku localItem) rs of
        (Inl m, results, st) \<Rightarrow>
          (results\<lparr>push_errors := push_errors results @ [(formatted_sku localItem, m)]\<rparr>, st)
      | (Inr _, results, st) \<Rightarrow> (results, st))"

fun pushLoop ::
  "env \<Rightarrow> (string \<times> ebay_item) list \<Rightarrow> formatted list \<Rightarrow> push_results \<times> state \<Rightarrow> push_results \<times> state" where
  "pushLoop ev ebayInventory [] rs = rs"
| "pushLoop ev ebayInventory (localItem # rest) rs =
     pushLoop ev ebayInventory rest (pushStep ev ebayInventory localItem rs)"

definition noPushResults :: push_results where
  "noPushResults = \<lparr> push_pushed = [], push_skipped = [], push_created = [], push_errors = [] \<rparr>"

definition pushToEbay :: "env \<Rightarrow> state \<Rightarrow> string + push_results \<times> state" where
  "pushToEbay ev st =
     (case getAllItems ev st of
        Inl m \<Rightarrow> Inl m
      | Inr localItems \<Rightarrow> Inr (pushLoop ev (ebayInventoryOf ev) localItems (noPushResults, st)))"

subsection \<open>Smart sync (two-way, with sales detection)\<close>

record sync_results =
  sync_imported :: "(string \<times> string) list"
  sync_exported :: "(string \<times> string) list"
  sync_updated :: "(string \<times> int \<times> int) list"
  sync_sales :: "(string \<times> int \<times> int) list"
  sync_errors :: "(string option \<times> string) list"

text \<open>
  Step 3, the body of the \<open>try\<close> block for a listing \<open>[sk, ebayItem]\<close> that has an
  entry in \<open>localMap\<close>.
\<close>

definition smartSyncPair ::
  "env \<Rightarrow> string \<Rightarrow> ebay_item \<Rightarrow> sync_results \<times> state \<Rightarrow> (string + unit) \<times> sync_results \<times> state" where
  "smartSyncPair ev sk ebayItem rs =
     (let results = fst rs; st = snd rs
      in case getItem ev sk st of
           Inl m \<Rightarrow> (Inl m, results, st)
         | Inr None \<Rightarrow> (Inr (), results, st)
         | Inr (Some fullItem) \<Rightarrow>
             (let snapshotQty = baselineQty (snapshotOf fullItem) fullItem;
                  ebayQty = num_or (e_quantity ebayItem) 0;
                  localQty = currentQty fullItem;
                  salesDetected = (if ebayQty < snapshotQty then snapshotQty - ebayQty else 0);
                  finalQty = (if ebayQty < snapshotQty then max 0 (localQty - salesDetected) else localQty);
                  sold = (if ebayQty < snapshotQty
                          then addHistory ev sk (saleEntry ev salesDetected finalQty ''sync'') st
                          else (Inr (), st))
              in case sold of
                   (Inl m, st1) \<Rightarrow> (Inl m, results, st1)
                 | (Inr _, st1) \<Rightarrow>
                     (let results1 = (if ebayQty < snapshotQty
                                      then results\<lparr>sync_sales := sync_sales results @ [(sk, salesDetected, finalQty)]\<rparr>
                                      else results)
                      in case syncItemToEbay ev (warehouseItemOf fullItem finalQty) st1 of
                           (Inl m, st2) \<Rightarrow> (Inl m, results1, st2)
                         | (Inr _, st2) \<Rightarrow>
                             (case updateItem ev sk
                                     (noUpdates\<lparr> u_currentQty := Some finalQty,
                                                u_lastSyncedQty := Some finalQty,
                                                u_ebaySync := Some \<lparr>
                                                  snapshot = Some (captureLocalSnapshot ev (fullItem\<lparr>currentQty := finalQty\<rparr>)),
                                                  lastSyncTime = Some (DateValue (now ev)),
                                                  ebayItemId = Some (e_itemId ebayItem),
                                                  status = ''synced'' \<rparr> \<rparr>) st2 of
                                (Inl m, st3) \<Rightarrow> (Inl m, results1, st3)
                              | (Inr _, st3) \<Rightarrow>
                                  (Inr (), results1\<lparr>sync_updated := sync_updated results1
                                      @ [(sk, finalQty, salesDetected)]\<rparr>, st3)))))"

text \<open>
  One turn of the loop of step 3. \<open>localMap\<close> is keyed by \<open>item.sku\<close> of the elements of
  \<open>localItems\<close>; the third component of the loop state is \<open>processedSkus\<close>.
\<close>

definition pairStep ::
  "env \<Rightarrow> (string \<times> formatted) list \<Rightarrow> string \<times> ebay_item \<Rightarrow> sync_results \<times> state \<times> string list
     \<Rightarrow> sync_results \<times> state \<times> string list" where
  "pairStep ev localMap entry acc =
     (let sk = fst entry; ebayItem = snd entry;
          results = fst acc; st = fst (snd acc); processedSkus = snd (snd acc)
      in case map_of localMap sk of
           None \<Rightarrow> acc
         | Some localItem \<Rightarrow>
             (case smartSyncPair ev sk ebayItem (results, st) of
                (Inl m, results', st') \<Rightarrow>
                  (results'\<lparr>sync_errors := sync_errors results' @ [(Some sk, m)]\<rparr>, st', processedSkus @ [sk])
              | (Inr _, results', st') \<Rightarrow> (results', st', processedSkus @ [sk])))"

text \<open>One turn of the loop of step 4: import of a listing that step 3 did not process.\<close>

definition importStep ::
  "env \<Rightarrow> string list \<Rightarrow> string \<times> ebay_item \<Rightarrow> sync_results \<times> state \<Rightarrow> sync_results \<times> state" where
  "importStep ev processedSkus entry rs =
     (let sk = fst entry; ebayItem = snd entry; results = fst rs; st = snd rs
      in if sk \<in> set processedSkus then rs
         else
           (case createItem ev (createLocalItemFromEbay ev ebayItem) st of
              (Inl m, st') \<Rightarrow>
                (results\<lparr>sync_errors := sync_errors results @ [(Some sk, ''Import failed: '' @ m)]\<rparr>, st')
            | (Inr _, st') \<Rightarrow>
                (results\<lparr>sync_imported := sync_imported results @ [(sk, e_title ebayItem)]\<rparr>, st')))"

text \<open>Step 5, the body of the \<open>try\<close> block; \<open>skv\<close> is the value of \<open>item.sku\<close>.\<close>

definition exportItem ::
  "env \<Rightarrow> string option \<Rightarrow> sync_results \<times> state \<Rightarrow> (string + unit) \<times> sync_results \<times> state" where
  "exportItem ev skv rs =
     (let results = fst rs; st = snd rs
      in case getItem ev (propKey skv) st of
           Inl m \<Rightarrow> (Inl m, results, st)
         | Inr None \<Rightarrow> (Inr (), results, st)
         | Inr (Some fullItem) \<Rightarrow>
             (case pushAndTrack ev (sku fullItem) fullItem st of
                (Inl m, st') \<Rightarrow> (Inl m, results, st')
              | (Inr _, st') \<Rightarrow>
                  (Inr (), results\<lparr>sync_exported := sync_exported results
                      @ [(sku fullItem, description fullItem)]\<rparr>, st')))"

definition exportStep ::
  "env \<Rightarrow> (string \<times> ebay_item) list \<Rightarrow> string list \<Rightarrow> formatted \<Rightarrow> sync_results \<times> state
     \<Rightarrow> sync_results \<times> state" where
  "exportStep ev ebayInventory processedSkus localItem rs =
     (let skv = formatted_sku localItem
      in if (case skv of None \<Rightarrow> False | Some s \<Rightarrow> s \<in> set processedSkus) then rs
         else if map_of ebayInventory (propKey skv) \<noteq> None then rs
         else
           (case exportItem ev skv rs of
              (Inl m, results, st) \<Rightarrow>
                (results\<lparr>sync_errors := sync_errors results @ [(skv, ''Export failed: '' @ m)]\<rparr>, st)
            | (Inr _, results, st) \<Rightarrow> (results, st)))"

definition noSyncResults :: sync_results where
  "noSyncResults = \<lparr> sync_imported = [], sync_exported = [], sync_updated = [], sync_sales = [],
     sync_errors = [] \<rparr>"

definition localMapOf :: "formatted list \<Rightarrow> (string \<times> formatted) list" where
  "localMapOf localItems =
     foldl (\<lambda>m it. AList.update (propKey (formatted_sku it)) it m) [] localItems"

definition smartSyncAll :: "env \<Rightarrow> state \<Rightarrow> string + sync_results \<times> state" where
  "smartSyncAll ev st =
     (let ebayInventory = ebayInventoryOf ev
      in case getAllItems ev st of
           Inl m \<Rightarrow> Inl m
         | Inr localItems \<Rightarrow>
             (let localMap = localMapOf localItems;
                  step3 = foldl (\<lambda>acc entry. pairStep ev localMap entry acc)
                            (noSyncResults, st, []) (objectEntries ebayInventory);
                  processedSkus = snd (snd step3);
                  step4 = foldl (\<lambda>rs entry. importStep ev processedSkus entry rs)
                            (fst step3, fst (snd step3)) (objectEntries ebayInventory);
                  step5 = foldl (\<lambda>rs localItem. exportStep ev ebayInventory processedSkus localItem rs)
                            step4 localItems
              in Inr step5))"

subsection \<open>Quantities and predicates used in the statements\<close>

text \<open>The values of \<open>salesDetected\<close> and \<open>finalQty\<close> that the paired pass of smart sync computes.\<close>

definition salesOf :: "item \<Rightarrow> ebay_item \<Rightarrow> int" where
  "salesOf fullItem ebayItem =
     (let snapshotQty = baselineQty (snapshotOf fullItem) fullItem;
          ebayQty = num_or (e_quantity ebayItem) 0
      in if ebayQty < snapshotQty then snapshotQty - ebayQty else 0)"

definition finalQtyOf :: "item \<Rightarrow> ebay_item \<Rightarrow> int" where
  "finalQtyOf fullItem ebayItem =
     (let snapshotQty = baselineQty (snapshotOf fullItem) fullItem;
          ebayQty = num_or (e_quantity ebayItem) 0
      in if ebayQty < snapshotQty then max 0 (currentQty fullItem - (snapshotQty - ebayQty))
         else currentQty fullItem)"

text \<open>The argument of the \<open>data.updateItem\<close> call that ends the paired pass.\<close>

definition pairUpdate :: "env \<Rightarrow> item \<Rightarrow> ebay_item \<Rightarrow> updates" where
  "pairUpdate ev fullItem ebayItem =
     noUpdates\<lparr> u_currentQty := Some (finalQtyOf fullItem ebayItem),
                u_lastSyncedQty := Some (finalQtyOf fullItem ebayItem),
                u_ebaySync := Some \<lparr>
                   snapshot = Some (captureLocalSnapshot ev (fullItem\<lparr>currentQty := finalQtyOf fullItem ebayItem\<rparr>)),
                   lastSyncTime = Some (DateValue (now ev)),
                   ebayItemId = Some (e_itemId ebayItem),
                   status = ''synced'' \<rparr> \<rparr>"

definition nonQty :: "change \<Rightarrow> bool" where
  "nonQty c = (case c of QuantityChange _ _ \<Rightarrow> False | _ \<Rightarrow> True)"

text \<open>The ledger of a record agrees with its quantity: the last entry, if any, carries it.\<close>

definition histOk :: "item \<Rightarrow> bool" where
  "histOk it = (case rev (history it) of [] \<Rightarrow> True | e # _ \<Rightarrow> h_newTotal e = currentQty it)"

text \<open>The history of \<open>it\<close> is an initial segment of the history of \<open>it'\<close>: nothing was removed
  or changed, entries were at most appended.\<close>

definition ledgerKept :: "item \<Rightarrow> item \<Rightarrow> bool" where
  "ledgerKept it it' = (length (history it) \<le> length (history it')
     \<and> take (length (history it)) (history it') = history it)"

text \<open>No record of the store has a negative quantity.\<close>

definition qtyInv :: "state \<Rightarrow> bool" where
  "qtyInv st = list_all (\<lambda>p. 0 \<le> currentQty (snd p)) (inventory st)"


text \<open>A sequence of sync calls, each with the environment it runs in; a call that throws
  leaves the state as it was.\<close>

datatype sync_op = Pull | Push | SmartSync

definition runOp :: "sync_op \<times> env \<Rightarrow> state \<Rightarrow> state" where
  "runOp oe st =
     (case fst oe of
        Pull \<Rightarrow> (case pullFromEbay (snd oe) st of Inl m \<Rightarrow> st | Inr rs \<Rightarrow> snd rs)
      | Push \<Rightarrow> (case pushToEbay (snd oe) st of Inl m \<Rightarrow> st | Inr rs \<Rightarrow> snd rs)
      | SmartSync \<Rightarrow> (case smartSyncAll (snd oe) st of Inl m \<Rightarrow> st | Inr rs \<Rightarrow> snd rs))"





subsection \<open>Concrete inputs\<close>

text \<open>An environment in which nothing rejects except the fetch of the listings.\<close>

definition demoEnv :: env where
  "demoEnv = \<lparr> accountId = ''acc_1'', now = 1000, listings = Inl ''Account not authenticated'',
     dataFault = (\<lambda>c k. None), ebayFault = (\<lambda>k. None) \<rparr>"

text \<open>The same, with a fetch that returns the given listings.\<close>

definition listingEnv :: "ebay_item list \<Rightarrow> env" where
  "listingEnv es = demoEnv\<lparr> listings := Inr \<lparr> l_items = es, l_error = None \<rparr> \<rparr>"

definition widgetListing :: "int \<Rightarrow> ebay_item" where
  "widgetListing q = \<lparr> e_itemId = ''110'', e_sku = ''X'', e_title = ''Widget'',
     e_price = Some (999 / 100), e_quantity = Some q \<rparr>"

text \<open>A record synced at time 500 with 10 units, untouched since.\<close>

definition widget :: item where
  "widget = createLocalItemFromEbay (demoEnv\<lparr>now := 500\<rparr>) (widgetListing 10)"

definition storeOf :: "item \<Rightarrow> state" where
  "storeOf it = \<lparr> inventory = [(sku it, it)], ebayWrites = [] \<rparr>"

definition emptyState :: state where
  "emptyState = \<lparr> inventory = [], ebayWrites = [] \<rparr>"

text \<open>Projections of the outcome of a call: its result lists, and a record of the store it leaves.\<close>

definition resultsOf :: "string + 'r \<times> state \<Rightarrow> 'r option" where
  "resultsOf x = (case x of Inl m \<Rightarrow> None | Inr rs \<Rightarrow> Some (fst rs))"

definition recordAfter :: "string + 'r \<times> state \<Rightarrow> string \<Rightarrow> item option" where
  "recordAfter x k = (case x of Inl m \<Rightarrow> None | Inr rs \<Rightarrow> map_of (inventory (snd rs)) k)"

definition actions :: "item \<Rightarrow> string list" where
  "actions it = map h_action (history it)"

text \<open>A backing store that rejects every call of one kind with the given message.\<close>

definition storeFails :: "data_call \<Rightarrow> string \<Rightarrow> data_call \<Rightarrow> string \<Rightarrow> string option" where
  "storeFails c m c' k = (if c' = c then Some m else None)"

section \<open>Properties\<close>

subsection \<open>Effects of the data access layer\<close>

lemma getItem_Inr: "getItem ev k st = Inr r \<Longrightarrow> r = map_of (inventory st) k"
  by (auto simp: getItem_def split: option.splits)

lemma createItem_effect:
  "createItem ev itemData st = (r, st') \<Longrightarrow>
     ebayWrites st' = ebayWrites st \<and>
     map_of (inventory st') = (case r of Inl _ \<Rightarrow> map_of (inventory st)
        | Inr _ \<Rightarrow> (map_of (inventory st))(sku itemData \<mapsto> itemData))"
  by (auto simp: createItem_def AList.update_conv' split: option.splits)

lemma updateItem_effect:
  "updateItem ev k u st = (r, st') \<Longrightarrow>
     ebayWrites st' = ebayWrites st \<and>
     map_of (inventory st') = (case r of Inl _ \<Rightarrow> map_of (inventory st)
        | Inr _ \<Rightarrow> (case map_of (inventory st) k of None \<Rightarrow> map_of (inventory st)
             | Some it \<Rightarrow> (map_of (inventory st))(k \<mapsto> assign (now ev) u it)))"
  by (auto simp: updateItem_def AList.update_conv' split: option.splits)

lemma addHistory_effect:
  "addHistory ev k e st = (r, st') \<Longrightarrow>
     ebayWrites st' = ebayWrites st \<and>
     map_of (inventory st') = (case r of Inl _ \<Rightarrow> map_of (inventory st)
        | Inr _ \<Rightarrow> (case map_of (inventory st) k of None \<Rightarrow> map_of (inventory st)
             | Some it \<Rightarrow> (map_of (inventory st))(k \<mapsto> it\<lparr>history := history it @ [e]\<rparr>)))"
  by (auto simp: addHistory_def AList.update_conv' split: option.splits)

lemma syncItemToEbay_inventory:
  "syncItemToEbay ev w st = (r, st') \<Longrightarrow> inventory st' = inventory st"
  by (auto simp: syncItemToEbay_def Let_def split: option.splits)

subsection \<open>The paired pass of smart sync\<close>

lemma smartSyncPair_InrD:
  assumes run: "smartSyncPair ev sk ebayItem (results, st) = (Inr (), results', st')"
    and ex: "map_of (inventory st) sk = Some fullItem"
  shows "\<exists>st1 st2.
     (if num_or (e_quantity ebayItem) 0 < baselineQty (snapshotOf fullItem) fullItem
      then addHistory ev sk (saleEntry ev (salesOf fullItem ebayItem) (finalQtyOf fullItem ebayItem) ''sync'') st = (Inr (), st1)
      else st1 = st)
     \<and> syncItemToEbay ev (warehouseItemOf fullItem (finalQtyOf fullItem ebayItem)) st1 = (Inr (), st2)
     \<and> updateItem ev sk (pairUpdate ev fullItem ebayItem) st2 = (Inr (), st')"
proof -
  have g: "getItem ev sk st = Inr (Some fullItem)"
  proof (cases "getItem ev sk st")
    case (Inl m) with run show ?thesis by (simp add: smartSyncPair_def)
  next
    case (Inr r) with getItem_Inr[OF Inr] ex show ?thesis by simp
  qed
  show ?thesis
    using run unfolding smartSyncPair_def Let_def g fst_conv snd_conv
    by (simp add: salesOf_def finalQtyOf_def pairUpdate_def Let_def
          split: if_splits prod.splits sum.splits)
qed

text \<open>
  C10. Post-sync consistency of smart sync: when the paired pass for a record completes
  without error, the record's \<open>currentQty\<close>, its \<open>lastSyncedQty\<close> and the quantity of its
  new snapshot are all equal to the reconciled final quantity, and the new snapshot's
  price, title and description are the local record's own price and description.
\<close>

theorem smartSyncPair_post_sync_consistent:
  assumes run: "smartSyncPair ev sk ebayItem (results, st) = (Inr (), results', st')"
    and ex: "map_of (inventory st) sk = Some fullItem"
  shows "\<exists>it snap. map_of (inventory st') sk = Some it \<and> snapshotOf it = Some snap
     \<and> currentQty it = finalQtyOf fullItem ebayItem
     \<and> lastSyncedQty it = Some (finalQtyOf fullItem ebayItem)
     \<and> s_quantity snap = finalQtyOf fullItem ebayItem
     \<and> s_price snap = price fullItem \<and> s_title snap = description fullItem
     \<and> s_description snap = description fullItem"
proof -
  from smartSyncPair_InrD[OF run ex] obtain st1 st2 where
    a: "if num_or (e_quantity ebayItem) 0 < baselineQty (snapshotOf fullItem) fullItem
        then addHistory ev sk (saleEntry ev (salesOf fullItem ebayItem) (finalQtyOf fullItem ebayItem) ''sync'') st = (Inr (), st1)
        else st1 = st"
    and b: "syncItemToEbay ev (warehouseItemOf fullItem (finalQtyOf fullItem ebayItem)) st1 = (Inr (), st2)"
    and c: "updateItem ev sk (pairUpdate ev fullItem ebayItem) st2 = (Inr (), st')"
    by blast
  have "\<exists>it1. map_of (inventory st1) sk = Some it1"
  proof (cases "num_or (e_quantity ebayItem) 0 < baselineQty (snapshotOf fullItem) fullItem")
    case True
    with a addHistory_effect show ?thesis using ex by fastforce
  next
    case False
    with a ex show ?thesis by simp
  qed
  then obtain it1 where it1: "map_of (inventory st1) sk = Some it1" by blast
  from syncItemToEbay_inventory[OF b] it1 have it2: "map_of (inventory st2) sk = Some it1" by simp
  from updateItem_effect[OF c] it2
  have fin: "map_of (inventory st') sk = Some (assign (now ev) (pairUpdate ev fullItem ebayItem) it1)"
    by simp
  show ?thesis
    unfolding fin
    by (simp add: assign_def pairUpdate_def noUpdates_def snapshotOf_def captureLocalSnapshot_def
          num_or_def str_or_def)
qed

theorem smartSyncPair_post_sync_consistent_witness:
  "fst (smartSyncPair demoEnv ''X'' (widgetListing 7) (noSyncResults, storeOf widget)) = Inr ()
   \<and> map_of (inventory (storeOf widget)) ''X'' = Some widget
   \<and> (\<exists>it snap.
         map_of (inventory (snd (snd (smartSyncPair demoEnv ''X'' (widgetListing 7)
             (noSyncResults, storeOf widget))))) ''X'' = Some it
       \<and> snapshotOf it = Some snap
       \<and> currentQty it = 7 \<and> lastSyncedQty it = Some 7 \<and> s_quantity snap = 7
       \<and> s_price snap = 999 / 100 \<and> s_title snap = ''Widget'' \<and> s_description snap = ''Widget'')"
proof -
  let ?run = "smartSyncPair demoEnv ''X'' (widgetListing 7) (noSyncResults, storeOf widget)"
  have ok: "fst ?run = Inr ()"
    by code_simp
  have run: "?run = (Inr (), fst (snd ?run), snd (snd ?run))"
    using ok by (metis prod.collapse)
  have ex: "map_of (inventory (storeOf widget)) ''X'' = Some widget"
    by code_simp
  have vals: "finalQtyOf widget (widgetListing 7) = 7" "price widget = 999 / 100"
    "description widget = ''Widget''"
    by code_simp+
  from smartSyncPair_post_sync_consistent[OF run ex] ok ex show ?thesis
    unfolding vals by blast
qed

subsection \<open>Pull of a listing that has a local record\<close>

lemma pullItem_existing:
  assumes "map_of (inventory (snd rs)) (str_or (e_sku e) (e_itemId e)) = Some it"
  shows "pullItem ev e rs =
     (case dataFault ev GetItem (str_or (e_sku e) (e_itemId e)) of
        Some m \<Rightarrow> (Inl m, fst rs, snd rs)
      | None \<Rightarrow> pullExisting ev (str_or (e_sku e) (e_itemId e)) it e rs)"
  using assms by (simp add: pullItem_def getItem_def Let_def split: option.splits)

lemma pullChange_nonQty:
  "nonQty c \<Longrightarrow> \<exists>u' cf'. pullChange ev sk it e c (u, cf) st = (Inr (u', cf'), st)
      \<and> u_currentQty u' = u_currentQty u"
  by (cases c) (simp_all add: pullChange_def nonQty_def Let_def)

lemma pullChanges_nonQty:
  "list_all nonQty cs \<Longrightarrow> \<exists>u' cf'. pullChanges ev sk it e cs (u, cf) st = (Inr (u', cf'), st)
      \<and> u_currentQty u' = u_currentQty u"
proof (induction cs arbitrary: u cf)
  case Nil
  then show ?case by simp
next
  case (Cons c cs)
  then have "nonQty c" and rest: "list_all nonQty cs" by simp_all
  from pullChange_nonQty[OF \<open>nonQty c\<close>] obtain u1 cf1 where
    1: "pullChange ev sk it e c (u, cf) st = (Inr (u1, cf1), st)" and 2: "u_currentQty u1 = u_currentQty u"
    by blast
  from Cons.IH[OF rest, of u1 cf1] 1 2 show ?case by simp
qed

lemma detect_shape:
  "\<exists>rest. list_all nonQty rest \<and> detectEbayChanges e (Some s) =
      (if num_or (e_quantity e) 0 \<noteq> s_quantity s
       then [QuantityChange (s_quantity s) (num_or (e_quantity e) 0)] else []) @ rest"
  by (simp add: detectEbayChanges_def Let_def nonQty_def)

lemma pullChange_qty_changed:
  "snapshotOf it = Some s \<Longrightarrow> currentQty it \<noteq> s_quantity s \<Longrightarrow>
     \<exists>cf'. pullChange ev sk it e (QuantityChange oldq newq) (u, cf) st = (Inr (u, cf'), st)"
  by (simp add: pullChange_def Let_def)

lemma updateItem_keeps:
  assumes "updateItem ev k0 u st = (r, st')" and "u_currentQty u = None"
    and "map_of (inventory st) k = Some it"
  shows "\<exists>it'. map_of (inventory st') k = Some it' \<and> currentQty it' = currentQty it
     \<and> history it' = history it"
proof (cases r)
  case (Inl m)
  with updateItem_effect[OF assms(1)] assms(3) show ?thesis by simp
next
  case (Inr x)
  show ?thesis
  proof (cases "map_of (inventory st) k0")
    case None
    with updateItem_effect[OF assms(1)] Inr assms(3) show ?thesis by simp
  next
    case (Some it0)
    with updateItem_effect[OF assms(1)] Inr assms(2,3) show ?thesis
      by (cases "k = k0") (auto simp: assign_def)
  qed
qed

lemma smartSyncPair_results:
  assumes run: "smartSyncPair ev sk ebayItem (results, st) = (Inr (), results', st')"
    and ex: "map_of (inventory st) sk = Some fullItem"
  shows "results' =
     (if num_or (e_quantity ebayItem) 0 < baselineQty (snapshotOf fullItem) fullItem
      then results\<lparr>sync_sales := sync_sales results
              @ [(sk, salesOf fullItem ebayItem, finalQtyOf fullItem ebayItem)]\<rparr>
      else results)
       \<lparr>sync_updated := sync_updated results
              @ [(sk, finalQtyOf fullItem ebayItem, salesOf fullItem ebayItem)]\<rparr>"
proof -
  have g: "getItem ev sk st = Inr (Some fullItem)"
  proof (cases "getItem ev sk st")
    case (Inl m) with run show ?thesis by (simp add: smartSyncPair_def)
  next
    case (Inr r) with getItem_Inr[OF Inr] ex show ?thesis by simp
  qed
  show ?thesis
    using run unfolding smartSyncPair_def Let_def g fst_conv snd_conv
    by (auto simp add: salesOf_def finalQtyOf_def Let_def
          split: if_splits prod.splits sum.splits)
qed

lemma smartSyncPair_sale:
  assumes run: "smartSyncPair ev sk e (results, st) = (Inr (), results', st')"
    and ex: "map_of (inventory st) sk = Some it"
    and less: "num_or (e_quantity e) 0 < baselineQty (snapshotOf it) it"
  shows "map_of (inventory st') sk =
     Some (assign (now ev) (pairUpdate ev it e)
       (it\<lparr>history := history it @ [saleEntry ev (salesOf it e) (finalQtyOf it e) ''sync'']\<rparr>))"
proof -
  from smartSyncPair_InrD[OF run ex] less obtain st1 st2 where
    a: "addHistory ev sk (saleEntry ev (salesOf it e) (finalQtyOf it e) ''sync'') st = (Inr (), st1)"
    and b: "syncItemToEbay ev (warehouseItemOf it (finalQtyOf it e)) st1 = (Inr (), st2)"
    and c: "updateItem ev sk (pairUpdate ev it e) st2 = (Inr (), st')"
    by auto
  from addHistory_effect[OF a] ex
  have 1: "map_of (inventory st1) sk
      = Some (it\<lparr>history := history it @ [saleEntry ev (salesOf it e) (finalQtyOf it e) ''sync'']\<rparr>)"
    by simp
  from syncItemToEbay_inventory[OF b] 1
  have 2: "map_of (inventory st2) sk
      = Some (it\<lparr>history := history it @ [saleEntry ev (salesOf it e) (finalQtyOf it e) ''sync'']\<rparr>)"
    by simp
  from updateItem_effect[OF c] 2 show ?thesis by simp
qed

lemma pullItem_sale:
  assumes ex: "map_of (inventory st) (str_or (e_sku e) (e_itemId e)) = Some it"
    and snap: "snapshotOf it = Some s"
    and same: "currentQty it = s_quantity s"
    and less: "num_or (e_quantity e) 0 < s_quantity s"
    and run: "pullItem ev e (results, st) = (Inr (), results', st')"
  shows "\<exists>it'. map_of (inventory st') (str_or (e_sku e) (e_itemId e)) = Some it'
     \<and> currentQty it' = max 0 (currentQty it - (s_quantity s - num_or (e_quantity e) 0))
     \<and> history it' = history it @ [saleEntry ev (s_quantity s - num_or (e_quantity e) 0)
            (max 0 (currentQty it - (s_quantity s - num_or (e_quantity e) 0))) ''pull'']"
proof -
  let ?sk = "str_or (e_sku e) (e_itemId e)"
  let ?sold = "s_quantity s - num_or (e_quantity e) 0"
  let ?q = "max 0 (currentQty it - ?sold)"
  let ?entry = "saleEntry ev ?sold ?q ''pull''"
  have ex': "map_of (inventory (snd (results, st))) ?sk = Some it" using ex by simp
  have nofault: "dataFault ev GetItem ?sk = None"
    using run unfolding pullItem_existing[OF ex'] by (simp split: option.splits)
  have pe: "pullExisting ev ?sk it e (results, st) = (Inr (), results', st')"
    using run unfolding pullItem_existing[OF ex'] nofault by simp
  from detect_shape[of e s] less obtain rest where
    rest: "list_all nonQty rest"
    and det: "detectEbayChanges e (snapshotOf it) = QuantityChange (s_quantity s) (num_or (e_quantity e) 0) # rest"
    unfolding snap by auto
  obtain r1 st1 where ah: "addHistory ev ?sk ?entry st = (r1, st1)" by fastforce
  have pc: "pullChange ev ?sk it e (QuantityChange (s_quantity s) (num_or (e_quantity e) 0)) (noUpdates, []) st
      = (case r1 of Inl m \<Rightarrow> (Inl m, st1)
         | Inr _ \<Rightarrow> (Inr (noUpdates\<lparr>u_currentQty := Some ?q\<rparr>, [''quantity'']), st1))"
    using snap same less ah
    by (simp add: pullChange_def baselineQty_def Let_def split: sum.splits)
  have r1: "r1 = Inr ()"
  proof (cases r1)
    case (Inl m)
    with pe pc det show ?thesis by (simp add: pullExisting_def Let_def)
  qed simp
  from pullChanges_nonQty[OF rest, of ev ?sk it e "noUpdates\<lparr>u_currentQty := Some ?q\<rparr>" "[''quantity'']" st1]
  obtain u' cf' where
    pcs: "pullChanges ev ?sk it e rest (noUpdates\<lparr>u_currentQty := Some ?q\<rparr>, [''quantity'']) st1 = (Inr (u', cf'), st1)"
    and uq: "u_currentQty u' = Some ?q" by auto
  have all: "pullChanges ev ?sk it e (detectEbayChanges e (snapshotOf it)) (noUpdates, []) st = (Inr (u', cf'), st1)"
    unfolding det using pc r1 pcs by simp
  let ?u = "u'\<lparr> u_ebaySync := Some \<lparr> snapshot = Some (captureEbaySnapshot ev e), lastSyncTime = Some (DateValue (now ev)),
                              ebayItemId = Some (e_itemId e), status = ''synced'' \<rparr>,
        u_lastSyncedQty := Some (num_or (e_quantity e) (currentQty it)) \<rparr>"
  have hk: "hasKeys u'" using uq by (simp add: hasKeys_def)
  have upd: "updateItem ev ?sk ?u st1 = (Inr (), st')"
    using pe unfolding pullExisting_def Let_def fst_conv snd_conv all
    using hk det by (simp split: prod.splits sum.splits)
  from addHistory_effect[OF ah] r1 ex
  have 1: "map_of (inventory st1) ?sk = Some (it\<lparr>history := history it @ [?entry]\<rparr>)" by simp
  from updateItem_effect[OF upd] 1
  have fin: "map_of (inventory st') ?sk = Some (assign (now ev) ?u (it\<lparr>history := history it @ [?entry]\<rparr>))"
    by simp
  show ?thesis unfolding fin using uq by (simp add: assign_def)
qed

lemma pullItem_no_sale:
  assumes ex: "map_of (inventory st) (str_or (e_sku e) (e_itemId e)) = Some it"
    and snap: "snapshotOf it = Some s"
    and diff: "currentQty it \<noteq> s_quantity s"
    and run: "pullItem ev e (results, st) = (r, results', st')"
  shows "\<exists>it'. map_of (inventory st') (str_or (e_sku e) (e_itemId e)) = Some it'
     \<and> currentQty it' = currentQty it \<and> history it' = history it"
proof (cases "dataFault ev GetItem (str_or (e_sku e) (e_itemId e))")
  case (Some m)
  have ex': "map_of (inventory (snd (results, st))) (str_or (e_sku e) (e_itemId e)) = Some it"
    using ex by simp
  from run have "st' = st" unfolding pullItem_existing[OF ex'] Some by simp
  with ex show ?thesis by simp
next
  case None
  let ?sk = "str_or (e_sku e) (e_itemId e)"
  have ex': "map_of (inventory (snd (results, st))) ?sk = Some it" using ex by simp
  have pe: "pullExisting ev ?sk it e (results, st) = (r, results', st')"
    using run unfolding pullItem_existing[OF ex'] None by simp
  from detect_shape[of e s] obtain rest where
    rest: "list_all nonQty rest"
    and det: "detectEbayChanges e (snapshotOf it) =
      (if num_or (e_quantity e) 0 \<noteq> s_quantity s
       then [QuantityChange (s_quantity s) (num_or (e_quantity e) 0)] else []) @ rest"
    unfolding snap by auto
  have "\<exists>u' cf'. pullChanges ev ?sk it e (detectEbayChanges e (snapshotOf it)) (noUpdates, []) st
       = (Inr (u', cf'), st) \<and> u_currentQty u' = None"
  proof (cases "num_or (e_quantity e) 0 \<noteq> s_quantity s")
    case True
    from pullChange_qty_changed[OF snap diff, of ev ?sk e "s_quantity s" "num_or (e_quantity e) 0" noUpdates "[]" st]
    obtain cf1 where 1: "pullChange ev ?sk it e (QuantityChange (s_quantity s) (num_or (e_quantity e) 0))
        (noUpdates, []) st = (Inr (noUpdates, cf1), st)" by blast
    from pullChanges_nonQty[OF rest, of ev ?sk it e noUpdates cf1 st] obtain u' cf' where
      "pullChanges ev ?sk it e rest (noUpdates, cf1) st = (Inr (u', cf'), st)"
      "u_currentQty u' = u_currentQty noUpdates" by blast
    with 1 True det show ?thesis by (simp add: noUpdates_def)
  next
    case False
    from pullChanges_nonQty[OF rest, of ev ?sk it e noUpdates "[]" st] obtain u' cf' where
      "pullChanges ev ?sk it e rest (noUpdates, []) st = (Inr (u', cf'), st)"
      "u_currentQty u' = u_currentQty noUpdates" by blast
    with False det show ?thesis by (simp add: noUpdates_def)
  qed
  then obtain u' cf' where
    all: "pullChanges ev ?sk it e (detectEbayChanges e (snapshotOf it)) (noUpdates, []) st = (Inr (u', cf'), st)"
    and uq: "u_currentQty u' = None" by blast
  let ?u = "u'\<lparr> u_ebaySync := Some \<lparr> snapshot = Some (captureEbaySnapshot ev e), lastSyncTime = Some (DateValue (now ev)),
                              ebayItemId = Some (e_itemId e), status = ''synced'' \<rparr>,
        u_lastSyncedQty := Some (num_or (e_quantity e) (currentQty it)) \<rparr>"
  have "st' = st \<or> (\<exists>r3. updateItem ev ?sk ?u st = (r3, st'))"
    using pe unfolding pullExisting_def Let_def fst_conv snd_conv all
    by (auto split: if_splits prod.splits sum.splits)
  then show ?thesis
  proof
    assume "st' = st" with ex show ?thesis by simp
  next
    assume "\<exists>r3. updateItem ev ?sk ?u st = (r3, st')"
    then obtain r3 where "updateItem ev ?sk ?u st = (r3, st')" by blast
    from updateItem_keeps[OF this _ ex] uq show ?thesis by simp
  qed
qed

text \<open>
  C1, as amended. Let the remote quantity be lower than the baseline (the snapshot
  quantity, failing that \<open>lastSyncedQty\<close>, failing that \<open>currentQty\<close>), and
  \<open>sold = baseline - remote\<close>. When the paired pass of smart sync completes for the
  record, the new local quantity is \<open>max 0 (localQty - sold)\<close> and exactly one entry is
  appended to the history, an \<open>EBAY_SALE\<close> with \<open>qty = - sold\<close> and \<open>newTotal\<close> the new
  quantity. The same holds for a pull of the listing that completes, provided the record
  has a snapshot and its local quantity equals the snapshot quantity.
\<close>

theorem sale_applied_on_remote_decrease:
  assumes ex: "map_of (inventory st) sk = Some it"
    and less: "num_or (e_quantity e) 0 < baselineQty (snapshotOf it) it"
  shows "(smartSyncPair ev sk e (sres, st) = (Inr (), sres', st1) \<longrightarrow>
            (\<exists>it' entry. map_of (inventory st1) sk = Some it'
               \<and> currentQty it' = max 0 (currentQty it - (baselineQty (snapshotOf it) it - num_or (e_quantity e) 0))
               \<and> history it' = history it @ [entry]
               \<and> h_action entry = ''EBAY_SALE''
               \<and> h_qty entry = - (baselineQty (snapshotOf it) it - num_or (e_quantity e) 0)
               \<and> h_newTotal entry = currentQty it'))
     \<and> (str_or (e_sku e) (e_itemId e) = sk \<and> snapshotOf it \<noteq> None
          \<and> currentQty it = baselineQty (snapshotOf it) it
          \<and> pullItem ev e (pres, st) = (Inr (), pres', st2) \<longrightarrow>
            (\<exists>it' entry. map_of (inventory st2) sk = Some it'
               \<and> currentQty it' = max 0 (currentQty it - (baselineQty (snapshotOf it) it - num_or (e_quantity e) 0))
               \<and> history it' = history it @ [entry]
               \<and> h_action entry = ''EBAY_SALE''
               \<and> h_qty entry = - (baselineQty (snapshotOf it) it - num_or (e_quantity e) 0)
               \<and> h_newTotal entry = currentQty it'))"
proof (intro conjI impI)
  assume run: "smartSyncPair ev sk e (sres, st) = (Inr (), sres', st1)"
  have f: "finalQtyOf it e = max 0 (currentQty it - (baselineQty (snapshotOf it) it - num_or (e_quantity e) 0))"
    and sl: "salesOf it e = baselineQty (snapshotOf it) it - num_or (e_quantity e) 0"
    using less by (simp_all add: finalQtyOf_def salesOf_def Let_def)
  show "\<exists>it' entry. map_of (inventory st1) sk = Some it'
               \<and> currentQty it' = max 0 (currentQty it - (baselineQty (snapshotOf it) it - num_or (e_quantity e) 0))
               \<and> history it' = history it @ [entry]
               \<and> h_action entry = ''EBAY_SALE''
               \<and> h_qty entry = - (baselineQty (snapshotOf it) it - num_or (e_quantity e) 0)
               \<and> h_newTotal entry = currentQty it'"
    unfolding smartSyncPair_sale[OF run ex less]
    by (simp add: assign_def pairUpdate_def noUpdates_def saleEntry_def f sl)
next
  assume a: "str_or (e_sku e) (e_itemId e) = sk \<and> snapshotOf it \<noteq> None
          \<and> currentQty it = baselineQty (snapshotOf it) it
          \<and> pullItem ev e (pres, st) = (Inr (), pres', st2)"
  then obtain s where snap: "snapshotOf it = Some s" by auto
  have b: "baselineQty (snapshotOf it) it = s_quantity s" by (simp add: snap baselineQty_def)
  from a have sk: "str_or (e_sku e) (e_itemId e) = sk" and same: "currentQty it = s_quantity s"
    and run: "pullItem ev e (pres, st) = (Inr (), pres', st2)" by (simp_all add: b)
  from pullItem_sale[OF ex[folded sk] snap same less[unfolded b] run]
  show "\<exists>it' entry. map_of (inventory st2) sk = Some it'
               \<and> currentQty it' = max 0 (currentQty it - (baselineQty (snapshotOf it) it - num_or (e_quantity e) 0))
               \<and> history it' = history it @ [entry]
               \<and> h_action entry = ''EBAY_SALE''
               \<and> h_qty entry = - (baselineQty (snapshotOf it) it - num_or (e_quantity e) 0)
               \<and> h_newTotal entry = currentQty it'"
    unfolding b sk by (auto simp: saleEntry_def)
qed

theorem sale_applied_on_remote_decrease_witness:
  "map_of (inventory (storeOf widget)) ''X'' = Some widget
   \<and> num_or (e_quantity (widgetListing 7)) 0 < baselineQty (snapshotOf widget) widget
   \<and> fst (smartSyncPair demoEnv ''X'' (widgetListing 7) (noSyncResults, storeOf widget)) = Inr ()
   \<and> str_or (e_sku (widgetListing 7)) (e_itemId (widgetListing 7)) = ''X''
   \<and> snapshotOf widget \<noteq> None
   \<and> currentQty widget = baselineQty (snapshotOf widget) widget
   \<and> fst (pullItem demoEnv (widgetListing 7) (noPullResults, storeOf widget)) = Inr ()
   \<and> (\<exists>it' entry.
         map_of (inventory (snd (snd (smartSyncPair demoEnv ''X'' (widgetListing 7)
            (noSyncResults, storeOf widget))))) ''X'' = Some it'
       \<and> currentQty it' = 7 \<and> history it' = history widget @ [entry]
       \<and> h_action entry = ''EBAY_SALE'' \<and> h_qty entry = - 3 \<and> h_newTotal entry = currentQty it')
   \<and> (\<exists>it' entry.
         map_of (inventory (snd (snd (pullItem demoEnv (widgetListing 7)
            (noPullResults, storeOf widget))))) ''X'' = Some it'
       \<and> currentQty it' = 7 \<and> history it' = history widget @ [entry]
       \<and> h_action entry = ''EBAY_SALE'' \<and> h_qty entry = - 3 \<and> h_newTotal entry = currentQty it')"
proof -
  let ?srun = "smartSyncPair demoEnv ''X'' (widgetListing 7) (noSyncResults, storeOf widget)"
  let ?prun = "pullItem demoEnv (widgetListing 7) (noPullResults, storeOf widget)"
  have ex: "map_of (inventory (storeOf widget)) ''X'' = Some widget" by code_simp
  have less: "num_or (e_quantity (widgetListing 7)) 0 < baselineQty (snapshotOf widget) widget"
    by code_simp
  have sok: "fst ?srun = Inr ()" by code_simp
  have pok: "fst ?prun = Inr ()" by code_simp
  have srun: "?srun = (Inr (), fst (snd ?srun), snd (snd ?srun))" using sok by (metis prod.collapse)
  have prun: "?prun = (Inr (), fst (snd ?prun), snd (snd ?prun))" using pok by (metis prod.collapse)
  have k: "str_or (e_sku (widgetListing 7)) (e_itemId (widgetListing 7)) = ''X''" by code_simp
  have sn: "snapshotOf widget \<noteq> None" by code_simp
  have same: "currentQty widget = baselineQty (snapshotOf widget) widget" by code_simp
  have v: "max 0 (currentQty widget - (baselineQty (snapshotOf widget) widget
              - num_or (e_quantity (widgetListing 7)) 0)) = 7"
    "- (baselineQty (snapshotOf widget) widget - num_or (e_quantity (widgetListing 7)) 0) = - 3"
    by code_simp+
  note T = sale_applied_on_remote_decrease[OF ex less, of demoEnv noSyncResults "fst (snd ?srun)"
      "snd (snd ?srun)" noPullResults "fst (snd ?prun)" "snd (snd ?prun)", unfolded v]
  from T srun have A: "\<exists>it' entry.
         map_of (inventory (snd (snd ?srun))) ''X'' = Some it'
       \<and> currentQty it' = 7 \<and> history it' = history widget @ [entry]
       \<and> h_action entry = ''EBAY_SALE'' \<and> h_qty entry = - 3 \<and> h_newTotal entry = currentQty it'"
    by blast
  from T k sn same prun have B: "\<exists>it' entry.
         map_of (inventory (snd (snd ?prun))) ''X'' = Some it'
       \<and> currentQty it' = 7 \<and> history it' = history widget @ [entry]
       \<and> h_action entry = ''EBAY_SALE'' \<and> h_qty entry = - 3 \<and> h_newTotal entry = currentQty it'"
    by blast
  from ex less sok k sn same pok A B show ?thesis by blast
qed

text \<open>
  C1 as stated fails for pull: snapshot quantity 10, remote quantity 7, local quantity 8.
  The claim asks for the new quantity \<open>max 0 (8 - 3) = 5\<close> and one \<open>EBAY_SALE\<close> entry;
  the pull skips the record and leaves it as it was.
\<close>

theorem pull_no_sale_when_local_changed:
  "baselineQty (snapshotOf (widget\<lparr>currentQty := 8, lastModified := DateValue 600\<rparr>))
      (widget\<lparr>currentQty := 8, lastModified := DateValue 600\<rparr>) = 10
   \<and> num_or (e_quantity (widgetListing 7)) 0 = 7
   \<and> resultsOf (pullFromEbay (listingEnv [widgetListing 7])
        (storeOf (widget\<lparr>currentQty := 8, lastModified := DateValue 600\<rparr>)))
      = Some (noPullResults\<lparr>pull_skipped := [(''X'', ''Local changes are newer'')]\<rparr>)
   \<and> recordAfter (pullFromEbay (listingEnv [widgetListing 7])
        (storeOf (widget\<lparr>currentQty := 8, lastModified := DateValue 600\<rparr>))) ''X''
      = Some (widget\<lparr>currentQty := 8, lastModified := DateValue 600\<rparr>)"
  by code_simp




text \<open>
  C4, as amended. For a record with no stored snapshot the change detector returns the
  single \<open>all\<close> descriptor. A pull that completes for it sets the price to the remote
  price unless that is 0 or unparsable, the description to the remote title unless that is
  empty, leaves \<open>currentQty\<close> and the history as they are (no sale is inferred), and
  stores the remote quantity in the new snapshot and, unless it is 0 or unparsable, in
  \<open>lastSyncedQty\<close>.
\<close>

theorem bootstrap_pull:
  assumes ex: "map_of (inventory st) (str_or (e_sku e) (e_itemId e)) = Some it"
    and nosnap: "snapshotOf it = None"
    and run: "pullItem ev e (results, st) = (Inr (), results', st')"
  shows "detectEbayChanges e (snapshotOf it) = [AcceptAll]
     \<and> (\<exists>it'. map_of (inventory st') (str_or (e_sku e) (e_itemId e)) = Some it'
          \<and> price it' = num_or (e_price e) (price it)
          \<and> description it' = str_or (e_title e) (description it)
          \<and> currentQty it' = currentQty it
          \<and> history it' = history it
          \<and> lastSyncedQty it' = Some (num_or (e_quantity e) (currentQty it))
          \<and> snapshotOf it' = Some (captureEbaySnapshot ev e))"
proof -
  let ?sk = "str_or (e_sku e) (e_itemId e)"
  let ?u = "noUpdates\<lparr> u_price := Some (num_or (e_price e) (price it)),
        u_description := Some (str_or (e_title e) (description it)),
        u_ebaySync := Some \<lparr> snapshot = Some (captureEbaySnapshot ev e), lastSyncTime = Some (DateValue (now ev)),
                              ebayItemId = Some (e_itemId e), status = ''synced'' \<rparr>,
        u_lastSyncedQty := Some (num_or (e_quantity e) (currentQty it)) \<rparr>"
  have det: "detectEbayChanges e (snapshotOf it) = [AcceptAll]"
    by (simp add: nosnap detectEbayChanges_def)
  have ex': "map_of (inventory (snd (results, st))) ?sk = Some it" using ex by simp
  have nofault: "dataFault ev GetItem ?sk = None"
    using run unfolding pullItem_existing[OF ex'] by (simp split: option.splits)
  have "pullExisting ev ?sk it e (results, st) = (Inr (), results', st')"
    using run unfolding pullItem_existing[OF ex'] nofault by simp
  then have upd: "updateItem ev ?sk ?u st = (Inr (), st')"
    unfolding pullExisting_def det Let_def
    by (simp add: pullChange_def hasKeys_def noUpdates_def Let_def split: prod.splits sum.splits)
  from updateItem_effect[OF upd] ex
  have fin: "map_of (inventory st') ?sk = Some (assign (now ev) ?u it)" by simp
  show ?thesis
    unfolding fin using det
    by (simp add: assign_def noUpdates_def snapshotOf_def)
qed

theorem bootstrap_pull_witness:
  "map_of (inventory (storeOf (widget\<lparr>ebaySync := None\<rparr>)))
       (str_or (e_sku (widgetListing 5)) (e_itemId (widgetListing 5))) = Some (widget\<lparr>ebaySync := None\<rparr>)
   \<and> snapshotOf (widget\<lparr>ebaySync := None\<rparr>) = None
   \<and> fst (pullItem demoEnv (widgetListing 5) (noPullResults, storeOf (widget\<lparr>ebaySync := None\<rparr>))) = Inr ()
   \<and> detectEbayChanges (widgetListing 5) (snapshotOf (widget\<lparr>ebaySync := None\<rparr>)) = [AcceptAll]
   \<and> (\<exists>it'. map_of (inventory (snd (snd (pullItem demoEnv (widgetListing 5)
                  (noPullResults, storeOf (widget\<lparr>ebaySync := None\<rparr>))))))
               (str_or (e_sku (widgetListing 5)) (e_itemId (widgetListing 5))) = Some it'
          \<and> price it' = 999 / 100 \<and> description it' = ''Widget''
          \<and> currentQty it' = 10
          \<and> history it' = history (widget\<lparr>ebaySync := None\<rparr>)
          \<and> lastSyncedQty it' = Some 5
          \<and> snapshotOf it' = Some (captureEbaySnapshot demoEnv (widgetListing 5)))"
proof -
  let ?w = "widget\<lparr>ebaySync := None\<rparr>"
  let ?run = "pullItem demoEnv (widgetListing 5) (noPullResults, storeOf ?w)"
  have ex: "map_of (inventory (storeOf ?w)) (str_or (e_sku (widgetListing 5)) (e_itemId (widgetListing 5))) = Some ?w"
    by code_simp
  have ns: "snapshotOf ?w = None" by code_simp
  have ok: "fst ?run = Inr ()" by code_simp
  have run: "?run = (Inr (), fst (snd ?run), snd (snd ?run))" using ok by (metis prod.collapse)
  have v: "num_or (e_price (widgetListing 5)) (price ?w) = 999 / 100"
    "str_or (e_title (widgetListing 5)) (description ?w) = ''Widget''"
    "currentQty ?w = 10" "num_or (e_quantity (widgetListing 5)) 10 = 5"
    by code_simp+
  from bootstrap_pull[OF ex ns run] ex ns ok show ?thesis unfolding v by blast
qed

text \<open>
  C4 as stated fails: a record with no snapshot and 10 units, a listing with 5 units. The
  pull updates price and title only; the local quantity stays 10.
\<close>

theorem pull_bootstrap_keeps_local_quantity:
  "snapshotOf (widget\<lparr>ebaySync := None\<rparr>) = None
   \<and> resultsOf (pullFromEbay (listingEnv [widgetListing 5]) (storeOf (widget\<lparr>ebaySync := None\<rparr>)))
      = Some (noPullResults\<lparr>pull_updated := [(''X'', [''price'', ''title''])]\<rparr>)
   \<and> map_option currentQty (recordAfter (pullFromEbay (listingEnv [widgetListing 5])
        (storeOf (widget\<lparr>ebaySync := None\<rparr>))) ''X'') = Some 10"
  by code_simp

text \<open>
  C3, as amended. Let the remote quantity be lower than the baseline. In the paired pass
  of smart sync the decrease is resolved as a sale whatever the local quantity is: a pass
  that completes records \<open>(sku, sold, finalQty)\<close> in the sales list, appends the
  \<open>EBAY_SALE\<close> entry and sets the quantity to \<open>max 0 (localQty - sold)\<close>. In pull the sale
  path is taken only when the local quantity equals the snapshot quantity; when it
  differs, the pull, whatever its outcome, leaves the quantity and the history of the
  record as they were.
\<close>

theorem remote_decrease_paths:
  assumes ex: "map_of (inventory st) sk = Some it"
    and less: "num_or (e_quantity e) 0 < baselineQty (snapshotOf it) it"
  shows "(smartSyncPair ev sk e (sres, st) = (Inr (), sres', st1) \<longrightarrow>
            sync_sales sres' = sync_sales sres @ [(sk, salesOf it e, finalQtyOf it e)]
          \<and> salesOf it e = baselineQty (snapshotOf it) it - num_or (e_quantity e) 0
          \<and> finalQtyOf it e = max 0 (currentQty it - salesOf it e)
          \<and> (\<exists>it'. map_of (inventory st1) sk = Some it'
                \<and> currentQty it' = finalQtyOf it e
                \<and> history it' = history it @ [saleEntry ev (salesOf it e) (finalQtyOf it e) ''sync'']))
     \<and> (str_or (e_sku e) (e_itemId e) = sk \<and> snapshotOf it = Some s \<and> currentQty it \<noteq> s_quantity s
          \<and> pullItem ev e (pres, st) = (r, pres', st2) \<longrightarrow>
            (\<exists>it'. map_of (inventory st2) sk = Some it'
                \<and> currentQty it' = currentQty it \<and> history it' = history it))"
proof (intro conjI impI)
  assume run: "smartSyncPair ev sk e (sres, st) = (Inr (), sres', st1)"
  show "sync_sales sres' = sync_sales sres @ [(sk, salesOf it e, finalQtyOf it e)]"
    unfolding smartSyncPair_results[OF run ex] using less by simp
  show "salesOf it e = baselineQty (snapshotOf it) it - num_or (e_quantity e) 0"
    using less by (simp add: salesOf_def Let_def)
  show "finalQtyOf it e = max 0 (currentQty it - salesOf it e)"
    using less by (simp add: salesOf_def finalQtyOf_def Let_def)
  show "\<exists>it'. map_of (inventory st1) sk = Some it'
                \<and> currentQty it' = finalQtyOf it e
                \<and> history it' = history it @ [saleEntry ev (salesOf it e) (finalQtyOf it e) ''sync'']"
    unfolding smartSyncPair_sale[OF run ex less]
    by (simp add: assign_def pairUpdate_def noUpdates_def)
next
  assume a: "str_or (e_sku e) (e_itemId e) = sk \<and> snapshotOf it = Some s \<and> currentQty it \<noteq> s_quantity s
          \<and> pullItem ev e (pres, st) = (r, pres', st2)"
  then have sk: "str_or (e_sku e) (e_itemId e) = sk" and snap: "snapshotOf it = Some s"
    and diff: "currentQty it \<noteq> s_quantity s" and run: "pullItem ev e (pres, st) = (r, pres', st2)"
    by simp_all
  from pullItem_no_sale[OF ex[folded sk] snap diff run]
  show "\<exists>it'. map_of (inventory st2) sk = Some it'
                \<and> currentQty it' = currentQty it \<and> history it' = history it"
    unfolding sk .
qed

theorem remote_decrease_paths_witness:
  "map_of (inventory (storeOf (widget\<lparr>currentQty := 8\<rparr>))) ''X'' = Some (widget\<lparr>currentQty := 8\<rparr>)
   \<and> num_or (e_quantity (widgetListing 7)) 0
        < baselineQty (snapshotOf (widget\<lparr>currentQty := 8\<rparr>)) (widget\<lparr>currentQty := 8\<rparr>)
   \<and> fst (smartSyncPair demoEnv ''X'' (widgetListing 7) (noSyncResults, storeOf (widget\<lparr>currentQty := 8\<rparr>))) = Inr ()
   \<and> str_or (e_sku (widgetListing 7)) (e_itemId (widgetListing 7)) = ''X''
   \<and> snapshotOf (widget\<lparr>currentQty := 8\<rparr>) = Some (captureEbaySnapshot (demoEnv\<lparr>now := 500\<rparr>) (widgetListing 10))
   \<and> currentQty (widget\<lparr>currentQty := 8\<rparr>) \<noteq> s_quantity (captureEbaySnapshot (demoEnv\<lparr>now := 500\<rparr>) (widgetListing 10))
   \<and> sync_sales (fst (snd (smartSyncPair demoEnv ''X'' (widgetListing 7)
         (noSyncResults, storeOf (widget\<lparr>currentQty := 8\<rparr>))))) = [(''X'', 3, 5)]
   \<and> (\<exists>it'. map_of (inventory (snd (snd (smartSyncPair demoEnv ''X'' (widgetListing 7)
         (noSyncResults, storeOf (widget\<lparr>currentQty := 8\<rparr>)))))) ''X'' = Some it'
         \<and> currentQty it' = 5
         \<and> history it' = history (widget\<lparr>currentQty := 8\<rparr>) @ [saleEntry demoEnv 3 5 ''sync''])
   \<and> (\<exists>it'. map_of (inventory (snd (snd (pullItem demoEnv (widgetListing 7)
         (noPullResults, storeOf (widget\<lparr>currentQty := 8\<rparr>)))))) ''X'' = Some it'
         \<and> currentQty it' = 8
         \<and> history it' = history (widget\<lparr>currentQty := 8\<rparr>))"
proof -
  let ?w = "widget\<lparr>currentQty := 8\<rparr>"
  let ?s = "captureEbaySnapshot (demoEnv\<lparr>now := 500\<rparr>) (widgetListing 10)"
  let ?srun = "smartSyncPair demoEnv ''X'' (widgetListing 7) (noSyncResults, storeOf ?w)"
  let ?prun = "pullItem demoEnv (widgetListing 7) (noPullResults, storeOf ?w)"
  have ex: "map_of (inventory (storeOf ?w)) ''X'' = Some ?w" by code_simp
  have less: "num_or (e_quantity (widgetListing 7)) 0 < baselineQty (snapshotOf ?w) ?w" by code_simp
  have sok: "fst ?srun = Inr ()" by code_simp
  have srun: "?srun = (Inr (), fst (snd ?srun), snd (snd ?srun))" using sok by (metis prod.collapse)
  have prun: "?prun = (fst ?prun, fst (snd ?prun), snd (snd ?prun))" by simp
  have k: "str_or (e_sku (widgetListing 7)) (e_itemId (widgetListing 7)) = ''X''" by code_simp
  have sn: "snapshotOf ?w = Some ?s" by code_simp
  have diff: "currentQty ?w \<noteq> s_quantity ?s" by code_simp
  have v: "salesOf ?w (widgetListing 7) = 3" "finalQtyOf ?w (widgetListing 7) = 5"
    "currentQty ?w = 8" "sync_sales noSyncResults = []"
    by code_simp+
  note T = remote_decrease_paths[OF ex less, of demoEnv noSyncResults "fst (snd ?srun)"
      "snd (snd ?srun)" ?s noPullResults "fst ?prun" "fst (snd ?prun)" "snd (snd ?prun)"]
  from T srun have A: "sync_sales (fst (snd ?srun)) = [(''X'', 3, 5)]"
    and B: "\<exists>it'. map_of (inventory (snd (snd ?srun))) ''X'' = Some it'
         \<and> currentQty it' = 5 \<and> history it' = history ?w @ [saleEntry demoEnv 3 5 ''sync'']"
    unfolding v by simp_all
  from T k sn diff prun have C: "\<exists>it'. map_of (inventory (snd (snd ?prun))) ''X'' = Some it'
         \<and> currentQty it' = 8 \<and> history it' = history ?w"
    unfolding v by blast
  from ex less sok k sn diff A B C show ?thesis by blast
qed

text \<open>
  C3 as stated fails for pull: snapshot quantity 10, remote quantity 7, local quantity 8,
  local record not modified after its last sync, and a remote price change. The pull
  reports the fields quantity and price as updated, takes the remote price, and applies
  no sale: quantity and history are unchanged.
\<close>

theorem pull_decrease_as_timestamp_conflict:
  "resultsOf (pullFromEbay (listingEnv [(widgetListing 7)\<lparr>e_price := Some (17 / 2)\<rparr>])
        (storeOf (widget\<lparr>currentQty := 8\<rparr>)))
      = Some (noPullResults\<lparr>pull_updated := [(''X'', [''quantity'', ''price''])]\<rparr>)
   \<and> map_option currentQty (recordAfter (pullFromEbay (listingEnv [(widgetListing 7)\<lparr>e_price := Some (17 / 2)\<rparr>])
        (storeOf (widget\<lparr>currentQty := 8\<rparr>))) ''X'') = Some 8
   \<and> map_option actions (recordAfter (pullFromEbay (listingEnv [(widgetListing 7)\<lparr>e_price := Some (17 / 2)\<rparr>])
        (storeOf (widget\<lparr>currentQty := 8\<rparr>))) ''X'') = Some [''EBAY_IMPORT'']"
  by code_simp

subsection \<open>The history ledger across the passes\<close>

lemma addHistory_frame:
  "addHistory ev k0 en st = (r, st') \<Longrightarrow> k \<noteq> k0 \<Longrightarrow> map_of (inventory st') k = map_of (inventory st) k"
  by (drule addHistory_effect) (auto split: sum.splits option.splits)

lemma updateItem_frame:
  "updateItem ev k0 u st = (r, st') \<Longrightarrow> k \<noteq> k0 \<Longrightarrow> map_of (inventory st') k = map_of (inventory st) k"
  by (drule updateItem_effect) (auto split: sum.splits option.splits)

lemma createItem_frame:
  "createItem ev new st = (r, st') \<Longrightarrow> k \<noteq> sku new \<Longrightarrow> map_of (inventory st') k = map_of (inventory st) k"
  by (drule createItem_effect) (auto split: sum.splits option.splits)

lemma addHistory_Inl: "addHistory ev k0 en st = (Inl m, st') \<Longrightarrow> st' = st"
  by (auto simp: addHistory_def split: option.splits)

lemma updateItem_Inl: "updateItem ev k0 u st = (Inl m, st') \<Longrightarrow> st' = st"
  by (auto simp: updateItem_def split: option.splits)

lemma pullChange_qty_cases:
  assumes "pullChange ev sk it e (QuantityChange oldq newq) (u, cf) st = (r, st1)"
  shows "(st1 = st \<and> (\<exists>cf1. r = Inr (u, cf1)))
    \<or> (st1 = st \<and> (\<exists>m. r = Inl m))
    \<or> (\<exists>entry. addHistory ev sk entry st = (Inr (), st1)
          \<and> r = Inr (u\<lparr>u_currentQty := Some (h_newTotal entry)\<rparr>, cf @ [''quantity'']))"
proof -
  let ?sold = "baselineQty (snapshotOf it) it - newq"
  let ?q = "max 0 (currentQty it - ?sold)"
  obtain r1 st2 where ah: "addHistory ev sk (saleEntry ev ?sold ?q ''pull'') st = (r1, st2)"
    by fastforce
  show ?thesis
  proof (cases r1)
    case (Inl m)
    with ah addHistory_Inl have "st2 = st" by blast
    with assms ah Inl show ?thesis
      by (auto simp: pullChange_def Let_def split: if_splits)
  next
    case (Inr x)
    with assms ah show ?thesis
      by (auto simp: pullChange_def Let_def saleEntry_def split: if_splits)
  qed
qed

lemma detect_shape_all:
  "\<exists>pre rest. detectEbayChanges e snap = pre @ rest \<and> list_all nonQty rest
      \<and> (pre = [] \<or> (\<exists>oldq newq. pre = [QuantityChange oldq newq]))"
proof (cases snap)
  case None
  have "detectEbayChanges e snap = [] @ [AcceptAll] \<and> list_all nonQty [AcceptAll]"
    by (simp add: None detectEbayChanges_def nonQty_def)
  then show ?thesis by blast
next
  case (Some s)
  from detect_shape[of e s] show ?thesis unfolding Some by (metis (full_types))
qed

text \<open>What the loop over the changes of one listing leaves.\<close>

lemma pullChanges_cases:
  assumes pcs: "pullChanges ev sk it e (detectEbayChanges e (snapshotOf it)) (noUpdates, []) st = (rc, stA)"
  shows "(stA = st \<and> (\<exists>m. rc = Inl m))
     \<or> (stA = st \<and> (\<exists>u' cf'. rc = Inr (u', cf') \<and> u_currentQty u' = None))
     \<or> (\<exists>entry u' cf'. addHistory ev sk entry st = (Inr (), stA) \<and> rc = Inr (u', cf')
           \<and> u_currentQty u' = Some (h_newTotal entry))"
proof -
  from detect_shape_all[of e "snapshotOf it"] obtain pre rest where
    det: "detectEbayChanges e (snapshotOf it) = pre @ rest" and rest: "list_all nonQty rest"
    and pre: "pre = [] \<or> (\<exists>oldq newq. pre = [QuantityChange oldq newq])" by blast
  from pre show ?thesis
  proof
    assume "pre = []"
    with pullChanges_nonQty[OF rest, of ev sk it e noUpdates "[]" st] pcs det
    show ?thesis by (auto simp: noUpdates_def)
  next
    assume "\<exists>oldq newq. pre = [QuantityChange oldq newq]"
    then obtain oldq newq where p: "pre = [QuantityChange oldq newq]" by blast
    obtain r1 st1 where pc: "pullChange ev sk it e (QuantityChange oldq newq) (noUpdates, []) st = (r1, st1)"
      by fastforce
    from pullChange_qty_cases[OF pc] show ?thesis
    proof (elim disjE conjE exE)
      fix cf1 assume a: "st1 = st" "r1 = Inr (noUpdates, cf1)"
      from pullChanges_nonQty[OF rest, of ev sk it e noUpdates cf1 st] pcs det p pc a
      show ?thesis by (auto simp: noUpdates_def)
    next
      fix m assume a: "st1 = st" "r1 = Inl m"
      with pcs det p pc show ?thesis by auto
    next
      fix entry assume a: "addHistory ev sk entry st = (Inr (), st1)"
        "r1 = Inr (noUpdates\<lparr>u_currentQty := Some (h_newTotal entry)\<rparr>, [] @ [''quantity''])"
      from pullChanges_nonQty[OF rest, of ev sk it e "noUpdates\<lparr>u_currentQty := Some (h_newTotal entry)\<rparr>"
          "[] @ [''quantity'']" st1] pcs det p pc a
      show ?thesis by auto
    qed
  qed
qed

lemma pullExisting_tail:
  assumes pe: "pullExisting ev sk it e (res, st) = (r, res', st')"
  shows "(st' = st \<and> r = Inr ())
     \<or> (\<exists>rc stA. pullChanges ev sk it e (detectEbayChanges e (snapshotOf it)) (noUpdates, []) st = (rc, stA)
          \<and> ((\<exists>m. rc = Inl m \<and> r = Inl m \<and> st' = stA)
             \<or> (\<exists>u' cf'. rc = Inr (u', cf') \<and> \<not> hasKeys u' \<and> st' = stA \<and> r = Inr ())
             \<or> (\<exists>u' cf' u2. rc = Inr (u', cf') \<and> hasKeys u' \<and> u_currentQty u2 = u_currentQty u'
                   \<and> updateItem ev sk u2 stA = (r, st'))))"
proof -
  obtain rc stA where pcs: "pullChanges ev sk it e (detectEbayChanges e (snapshotOf it)) (noUpdates, []) st = (rc, stA)"
    by fastforce
  show ?thesis
  proof (cases "detectEbayChanges e (snapshotOf it) = []")
    case True
    with pe show ?thesis by (simp add: pullExisting_def Let_def)
  next
    case False
    show ?thesis
    proof (cases rc)
      case (Inl m)
      with pe pcs False show ?thesis by (simp add: pullExisting_def Let_def)
    next
      case (Inr acc)
      obtain u' cf' where acc: "acc = (u', cf')" by (cases acc)
      show ?thesis
      proof (cases "hasKeys u'")
        case False
        with pe pcs \<open>detectEbayChanges e (snapshotOf it) \<noteq> []\<close> Inr acc show ?thesis
          by (simp add: pullExisting_def Let_def)
      next
        case True
        let ?u2 = "u'\<lparr> u_ebaySync := Some \<lparr> snapshot = Some (captureEbaySnapshot ev e), lastSyncTime = Some (DateValue (now ev)),
                              ebayItemId = Some (e_itemId e), status = ''synced'' \<rparr>,
                      u_lastSyncedQty := Some (num_or (e_quantity e) (currentQty it)) \<rparr>"
        obtain r3 st3 where up: "updateItem ev sk ?u2 stA = (r3, st3)" by fastforce
        have "r = r3 \<and> st' = st3"
          using pe pcs \<open>detectEbayChanges e (snapshotOf it) \<noteq> []\<close> Inr acc True up
          by (cases r3) (simp_all add: pullExisting_def Let_def)
        with up have "updateItem ev sk ?u2 stA = (r, st')" by simp
        moreover have "u_currentQty ?u2 = u_currentQty u'" by simp
        ultimately show ?thesis using pcs Inr acc True by blast
      qed
    qed
  qed
qed

lemma pullExisting_ledger:
  assumes pe: "pullExisting ev sk it e (res, st) = (r, res', st')"
    and ex: "map_of (inventory st) sk = Some it"
  shows "\<exists>it'. map_of (inventory st') sk = Some it'
     \<and> ((history it' = history it \<and> currentQty it' = currentQty it)
        \<or> (\<exists>entry. history it' = history it @ [entry] \<and> (r = Inr () \<longrightarrow> currentQty it' = h_newTotal entry)))"
proof -
  from pullExisting_tail[OF pe] show ?thesis
  proof (elim disjE conjE exE)
    assume "st' = st" with ex show ?thesis by simp
  next
    fix rc stA m
    assume pcs: "pullChanges ev sk it e (detectEbayChanges e (snapshotOf it)) (noUpdates, []) st = (rc, stA)"
      and a: "rc = Inl m" "st' = stA"
    from pullChanges_cases[OF pcs] a ex show ?thesis by auto
  next
    fix rc stA u' cf'
    assume pcs: "pullChanges ev sk it e (detectEbayChanges e (snapshotOf it)) (noUpdates, []) st = (rc, stA)"
      and a: "rc = Inr (u', cf')" "\<not> hasKeys u'" "st' = stA"
    from pullChanges_cases[OF pcs] a ex show ?thesis by (auto simp: hasKeys_def)
  next
    fix rc stA u' cf' u2
    assume pcs: "pullChanges ev sk it e (detectEbayChanges e (snapshotOf it)) (noUpdates, []) st = (rc, stA)"
      and a: "rc = Inr (u', cf')" "u_currentQty u2 = u_currentQty u'"
      and up: "updateItem ev sk u2 stA = (r, st')"
    from pullChanges_cases[OF pcs] a(1)
    consider (same) "stA = st" "u_currentQty u' = None"
      | (sale) entry where "addHistory ev sk entry st = (Inr (), stA)" "u_currentQty u' = Some (h_newTotal entry)"
      by auto
    then show ?thesis
    proof cases
      case same
      from updateItem_keeps[OF up _ ex[folded same(1)]] a(2) same(2) show ?thesis by auto
    next
      case sale
      from addHistory_effect[OF sale(1)] ex
      have 1: "map_of (inventory stA) sk = Some (it\<lparr>history := history it @ [entry]\<rparr>)" by simp
      show ?thesis
      proof (cases r)
        case (Inl m)
        with updateItem_Inl up have "st' = stA" by blast
        with 1 Inl show ?thesis by simp
      next
        case (Inr x)
        with updateItem_effect[OF up] 1
        have "map_of (inventory st') sk = Some (assign (now ev) u2 (it\<lparr>history := history it @ [entry]\<rparr>))"
          by simp
        then show ?thesis using a(2) sale(2) by (simp add: assign_def)
      qed
    qed
  qed
qed

lemma pullExisting_frame:
  assumes pe: "pullExisting ev sk it e (res, st) = (r, res', st')" and ne: "k \<noteq> sk"
  shows "map_of (inventory st') k = map_of (inventory st) k"
proof -
  from pullExisting_tail[OF pe] show ?thesis
  proof (elim disjE conjE exE)
    assume "st' = st" then show ?thesis by simp
  next
    fix rc stA m
    assume pcs: "pullChanges ev sk it e (detectEbayChanges e (snapshotOf it)) (noUpdates, []) st = (rc, stA)"
      and a: "rc = Inl m" "st' = stA"
    from pullChanges_cases[OF pcs] a show ?thesis by auto
  next
    fix rc stA u' cf'
    assume pcs: "pullChanges ev sk it e (detectEbayChanges e (snapshotOf it)) (noUpdates, []) st = (rc, stA)"
      and a: "rc = Inr (u', cf')" "\<not> hasKeys u'" "st' = stA"
    from pullChanges_cases[OF pcs] a addHistory_frame[OF _ ne] show ?thesis by auto
  next
    fix rc stA u' cf' u2
    assume pcs: "pullChanges ev sk it e (detectEbayChanges e (snapshotOf it)) (noUpdates, []) st = (rc, stA)"
      and up: "updateItem ev sk u2 stA = (r, st')"
    from pullChanges_cases[OF pcs] addHistory_frame[OF _ ne]
    have "map_of (inventory stA) k = map_of (inventory st) k" by auto
    with updateItem_frame[OF up ne] show ?thesis by simp
  qed
qed

lemma ledgerKept_same: "history it' = history it \<Longrightarrow> ledgerKept it it'"
  by (simp add: ledgerKept_def)

lemma ledgerKept_app: "history it' = history it @ new \<Longrightarrow> ledgerKept it it'"
  by (simp add: ledgerKept_def)

lemma histOk_same: "history it' = history it \<Longrightarrow> currentQty it' = currentQty it \<Longrightarrow> histOk it \<Longrightarrow> histOk it'"
  by (simp add: histOk_def split: list.splits)

lemma histOk_app: "history it' = h @ [entry] \<Longrightarrow> currentQty it' = h_newTotal entry \<Longrightarrow> histOk it'"
  by (simp add: histOk_def)

lemma pullItem_ledger:
  assumes run: "pullItem ev e (res, st) = (r, res', st')"
    and ex: "map_of (inventory st) k = Some it"
  shows "\<exists>it'. map_of (inventory st') k = Some it' \<and> ledgerKept it it'
     \<and> (r = Inr () \<and> histOk it \<longrightarrow> histOk it')"
proof -
  let ?sk = "str_or (e_sku e) (e_itemId e)"
  show ?thesis
  proof (cases "map_of (inventory st) ?sk")
    case None
    then have ne: "k \<noteq> ?sk" using ex by auto
    have ne': "k \<noteq> sku (createLocalItemFromEbay ev e)"
      using ne by (simp add: createLocalItemFromEbay_def Let_def)
    have "st' = st \<or> (\<exists>rc. createItem ev (createLocalItemFromEbay ev e) st = (rc, st'))"
      using run None by (auto simp: pullItem_def getItem_def Let_def split: option.splits sum.splits prod.splits)
    with createItem_frame[OF _ ne'] have "map_of (inventory st') k = map_of (inventory st) k" by auto
    with ex show ?thesis by (auto intro: ledgerKept_same)
  next
    case (Some loc)
    have ex': "map_of (inventory (snd (res, st))) ?sk = Some loc" using Some by simp
    show ?thesis
    proof (cases "dataFault ev GetItem ?sk")
      case (Some m)
      with run have "st' = st" unfolding pullItem_existing[OF ex'] by simp
      moreover from run Some have "r = Inl m" unfolding pullItem_existing[OF ex'] by simp
      ultimately show ?thesis using ex by (auto intro: ledgerKept_same)
    next
      case None
      with run have pe: "pullExisting ev ?sk loc e (res, st) = (r, res', st')"
        unfolding pullItem_existing[OF ex'] by simp
      show ?thesis
      proof (cases "k = ?sk")
        case False
        from pullExisting_frame[OF pe False] ex show ?thesis by (auto intro: ledgerKept_same)
      next
        case True
        with ex Some have loc: "loc = it" by simp
        from pullExisting_ledger[OF pe Some] loc True obtain it' where
          1: "map_of (inventory st') k = Some it'"
          and 2: "(history it' = history it \<and> currentQty it' = currentQty it)
             \<or> (\<exists>entry. history it' = history it @ [entry] \<and> (r = Inr () \<longrightarrow> currentQty it' = h_newTotal entry))"
          by auto
        from 2 have "ledgerKept it it' \<and> (r = Inr () \<and> histOk it \<longrightarrow> histOk it')"
          by (auto intro: ledgerKept_same ledgerKept_app histOk_same histOk_app)
        with 1 show ?thesis by blast
      qed
    qed
  qed
qed

lemma pushAndTrack_keeps:
  assumes "pushAndTrack ev k0 fullItem st = (r, st')" and ex: "map_of (inventory st) k = Some it"
  shows "\<exists>it'. map_of (inventory st') k = Some it' \<and> currentQty it' = currentQty it
     \<and> history it' = history it"
proof -
  obtain r1 st1 where s1: "syncItemToEbay ev (warehouseItemOf fullItem (currentQty fullItem)) st = (r1, st1)"
    by fastforce
  have inv1: "inventory st1 = inventory st" by (rule syncItemToEbay_inventory[OF s1])
  show ?thesis
  proof (cases r1)
    case (Inl m)
    with assms(1) s1 have "st' = st1" by (simp add: pushAndTrack_def)
    with inv1 ex show ?thesis by simp
  next
    case (Inr x)
    with assms(1) s1 have up: "updateItem ev k0 (syncTracking ev fullItem) st1 = (r, st')"
      by (simp add: pushAndTrack_def)
    have "u_currentQty (syncTracking ev fullItem) = None"
      by (simp add: syncTracking_def noUpdates_def)
    from updateItem_keeps[OF up this, of k it] ex inv1 show ?thesis by simp
  qed
qed

lemma pushItem_keeps:
  assumes run: "pushItem ev einv skv (res, st) = (r, res', st')"
    and ex: "map_of (inventory st) k = Some it"
  shows "\<exists>it'. map_of (inventory st') k = Some it' \<and> currentQty it' = currentQty it
     \<and> history it' = history it"
proof -
  have "st' = st \<or> (\<exists>fullItem rp. pushAndTrack ev (propKey skv) fullItem st = (rp, st'))"
    using run
    by (auto simp: pushItem_def Let_def split: sum.splits option.splits prod.splits if_splits)
  then show ?thesis
  proof
    assume "st' = st" with ex show ?thesis by simp
  next
    assume "\<exists>fullItem rp. pushAndTrack ev (propKey skv) fullItem st = (rp, st')"
    then obtain fullItem rp where "pushAndTrack ev (propKey skv) fullItem st = (rp, st')" by blast
    from pushAndTrack_keeps[OF this ex] show ?thesis .
  qed
qed

lemma exportItem_keeps:
  assumes run: "exportItem ev skv (res, st) = (r, res', st')"
    and ex: "map_of (inventory st) k = Some it"
  shows "\<exists>it'. map_of (inventory st') k = Some it' \<and> currentQty it' = currentQty it
     \<and> history it' = history it"
proof -
  have "st' = st \<or> (\<exists>fullItem rp. pushAndTrack ev (sku fullItem) fullItem st = (rp, st'))"
    using run
    by (auto simp: exportItem_def Let_def split: sum.splits option.splits prod.splits)
  then show ?thesis
  proof
    assume "st' = st" with ex show ?thesis by simp
  next
    assume "\<exists>fullItem rp. pushAndTrack ev (sku fullItem) fullItem st = (rp, st')"
    then obtain fullItem rp where "pushAndTrack ev (sku fullItem) fullItem st = (rp, st')" by blast
    from pushAndTrack_keeps[OF this ex] show ?thesis .
  qed
qed

lemma addHistory_hist:
  assumes "addHistory ev k0 en st = (r, st')" and ex: "map_of (inventory st) k = Some it"
  shows "\<exists>it'. map_of (inventory st') k = Some it' \<and> currentQty it' = currentQty it
     \<and> (history it' = history it \<or> history it' = history it @ [en])"
  using addHistory_effect[OF assms(1)] ex
  by (cases r; cases "map_of (inventory st) k0"; cases "k = k0") auto

lemma updateItem_hist:
  assumes "updateItem ev k0 u st = (r, st')" and ex: "map_of (inventory st) k = Some it"
  shows "\<exists>it'. map_of (inventory st') k = Some it' \<and> history it' = history it"
  using updateItem_effect[OF assms(1)] ex
  by (cases r; cases "map_of (inventory st) k0"; cases "k = k0") (auto simp: assign_def)

lemma smartSyncPair_steps:
  assumes run: "smartSyncPair ev sk e (res, st) = (r, res', st')"
  shows "st' = st
     \<or> (\<exists>st1 w r2 st2. (st1 = st \<or> (\<exists>en r1. addHistory ev sk en st = (r1, st1)))
           \<and> (st' = st1
              \<or> (syncItemToEbay ev w st1 = (r2, st2)
                   \<and> (st' = st2 \<or> (\<exists>u r3. updateItem ev sk u st2 = (r3, st'))))))"
proof (cases "getItem ev sk st")
  case (Inl m)
  with run show ?thesis by (simp add: smartSyncPair_def)
next
  case (Inr o1)
  show ?thesis
  proof (cases o1)
    case None
    with run Inr show ?thesis by (simp add: smartSyncPair_def)
  next
    case (Some fullItem)
    let ?sale = "num_or (e_quantity e) 0 < baselineQty (snapshotOf fullItem) fullItem"
    obtain r1 st1 where s1: "(if ?sale
        then addHistory ev sk (saleEntry ev (salesOf fullItem e) (finalQtyOf fullItem e) ''sync'') st
        else (Inr (), st)) = (r1, st1)" by fastforce
    obtain r2 st2 where s2: "syncItemToEbay ev (warehouseItemOf fullItem (finalQtyOf fullItem e)) st1 = (r2, st2)"
      by fastforce
    obtain r3 st3 where s3: "updateItem ev sk (pairUpdate ev fullItem e) st2 = (r3, st3)"
      by fastforce
    have a: "st1 = st \<or> (\<exists>en r1. addHistory ev sk en st = (r1, st1))"
      using s1 by (auto split: if_splits)
    have "st' = st1 \<or> st' = st2 \<or> st' = st3"
      using run s1 s2 s3 unfolding smartSyncPair_def Let_def Inr Some fst_conv snd_conv
      by (cases ?sale; cases r1; cases r2; cases r3)
         (simp_all add: salesOf_def finalQtyOf_def pairUpdate_def Let_def)
    with a s2 s3 show ?thesis by blast
  qed
qed

lemma smartSyncPair_any:
  assumes run: "smartSyncPair ev sk e (res, st) = (r, res', st')"
    and ex: "map_of (inventory st) k = Some it"
  shows "\<exists>it'. map_of (inventory st') k = Some it' \<and> ledgerKept it it'"
proof -
  have base: "\<exists>it'. map_of (inventory st) k = Some it' \<and> (history it' = history it \<or> (\<exists>en. history it' = history it @ [en]))"
    using ex by simp
  have fin: "\<exists>it'. map_of (inventory st') k = Some it' \<and> (history it' = history it \<or> (\<exists>en. history it' = history it @ [en]))"
    using smartSyncPair_steps[OF run]
  proof (elim disjE conjE exE)
    assume "st' = st" with base show ?thesis by simp
  next
    fix st1 w r2 st2 assume "st1 = st" "st' = st1"
    with base show ?thesis by simp
  next
    fix st1 w r2 st2 en r1 assume "addHistory ev sk en st = (r1, st1)" "st' = st1"
    with addHistory_hist[OF this(1) ex] show ?thesis by auto
  next
    fix st1 w r2 st2 assume "st1 = st" "syncItemToEbay ev w st1 = (r2, st2)" "st' = st2"
    with syncItemToEbay_inventory[OF this(2)] base show ?thesis by simp
  next
    fix st1 w r2 st2 u r3 assume a: "st1 = st" "syncItemToEbay ev w st1 = (r2, st2)"
      "updateItem ev sk u st2 = (r3, st')"
    from syncItemToEbay_inventory[OF a(2)] a(1) ex have "map_of (inventory st2) k = Some it" by simp
    from updateItem_hist[OF a(3) this] show ?thesis by auto
  next
    fix st1 w r2 st2 en r1 assume a: "addHistory ev sk en st = (r1, st1)"
      "syncItemToEbay ev w st1 = (r2, st2)" "st' = st2"
    from addHistory_hist[OF a(1) ex] syncItemToEbay_inventory[OF a(2)] a(3) show ?thesis by auto
  next
    fix st1 w r2 st2 en r1 u r3 assume a: "addHistory ev sk en st = (r1, st1)"
      "syncItemToEbay ev w st1 = (r2, st2)" "updateItem ev sk u st2 = (r3, st')"
    from addHistory_hist[OF a(1) ex] obtain it1 where
      1: "map_of (inventory st1) k = Some it1"
      and 2: "history it1 = history it \<or> history it1 = history it @ [en]" by blast
    from syncItemToEbay_inventory[OF a(2)] 1 have "map_of (inventory st2) k = Some it1" by simp
    from updateItem_hist[OF a(3) this] 2 show ?thesis by auto
  qed
  then show ?thesis by (auto intro: ledgerKept_same ledgerKept_app)
qed

lemma smartSyncPair_frame:
  assumes run: "smartSyncPair ev sk e (res, st) = (r, res', st')"
    and ne: "k \<noteq> sk"
  shows "map_of (inventory st') k = map_of (inventory st) k"
proof -
  note ah = addHistory_frame[OF _ ne] and up = updateItem_frame[OF _ ne]
    and sy = syncItemToEbay_inventory
  from smartSyncPair_steps[OF run] show ?thesis
  proof (elim disjE conjE exE)
    assume "st' = st" then show ?thesis by simp
  next
    fix st1 w r2 st2 assume "st1 = st" "st' = st1"
    then show ?thesis by simp
  next
    fix st1 w r2 st2 en r1 assume "addHistory ev sk en st = (r1, st1)" "st' = st1"
    with ah show ?thesis by blast
  next
    fix st1 w r2 st2 assume "st1 = st" "syncItemToEbay ev w st1 = (r2, st2)" "st' = st2"
    with sy show ?thesis by metis
  next
    fix st1 w r2 st2 u r3 assume a: "st1 = st" "syncItemToEbay ev w st1 = (r2, st2)"
      "updateItem ev sk u st2 = (r3, st')"
    from up[OF a(3)] sy[OF a(2)] a(1) show ?thesis by simp
  next
    fix st1 w r2 st2 en r1 assume a: "addHistory ev sk en st = (r1, st1)"
      "syncItemToEbay ev w st1 = (r2, st2)" "st' = st2"
    from ah[OF a(1)] sy[OF a(2)] a(3) show ?thesis by simp
  next
    fix st1 w r2 st2 en r1 u r3 assume a: "addHistory ev sk en st = (r1, st1)"
      "syncItemToEbay ev w st1 = (r2, st2)" "updateItem ev sk u st2 = (r3, st')"
    from ah[OF a(1)] sy[OF a(2)] up[OF a(3)] show ?thesis by simp
  qed
qed

lemma smartSyncPair_nosale:
  assumes run: "smartSyncPair ev sk e (results, st) = (Inr (), results', st')"
    and ex: "map_of (inventory st) sk = Some it"
    and ge: "\<not> num_or (e_quantity e) 0 < baselineQty (snapshotOf it) it"
  shows "map_of (inventory st') sk = Some (assign (now ev) (pairUpdate ev it e) it)"
proof -
  from smartSyncPair_InrD[OF run ex] ge obtain st2 where
    b: "syncItemToEbay ev (warehouseItemOf it (finalQtyOf it e)) st = (Inr (), st2)"
    and c: "updateItem ev sk (pairUpdate ev it e) st2 = (Inr (), st')"
    by auto
  from syncItemToEbay_inventory[OF b] ex have "map_of (inventory st2) sk = Some it" by simp
  with updateItem_effect[OF c] show ?thesis by simp
qed

lemma smartSyncPair_histOk:
  assumes run: "smartSyncPair ev sk e (res, st) = (Inr (), res', st')"
    and ex: "map_of (inventory st) k = Some it"
    and ok: "histOk it"
  shows "\<exists>it'. map_of (inventory st') k = Some it' \<and> histOk it'"
proof (cases "k = sk")
  case False
  from smartSyncPair_frame[OF run False] ex ok show ?thesis by simp
next
  case True
  show ?thesis
  proof (cases "num_or (e_quantity e) 0 < baselineQty (snapshotOf it) it")
    case less: True
    from smartSyncPair_sale[OF run ex[unfolded True] less] show ?thesis
      unfolding True by (simp add: histOk_def assign_def pairUpdate_def noUpdates_def saleEntry_def)
  next
    case ge: False
    from smartSyncPair_nosale[OF run ex[unfolded True] ge] ok ge show ?thesis
      unfolding True
      by (simp add: histOk_def assign_def pairUpdate_def noUpdates_def finalQtyOf_def Let_def
            split: list.splits)
  qed
qed

text \<open>
  C8, as amended. Across the pass of one item in pull, push and smart sync (the paired
  pass and the export pass), whatever its outcome, every record that exists before
  exists after, with its old history as an initial segment of its new history: the
  length does not decrease and no entry is changed or removed. When the pass completes
  without error and the last entry of the history carried the record's quantity before,
  it does so after. (A pass that fails after it appended the \<open>EBAY_SALE\<close> entry leaves
  the entry in place and the quantity as it was.)
\<close>

theorem ledger_append_only:
  assumes ex: "map_of (inventory st) k = Some it"
  shows "(pullItem ev e (pres, st) = (r1, pres', st1) \<longrightarrow>
            (\<exists>it'. map_of (inventory st1) k = Some it' \<and> ledgerKept it it'
                \<and> (r1 = Inr () \<and> histOk it \<longrightarrow> histOk it')))
     \<and> (pushItem ev einv skv (qres, st) = (r2, qres', st2) \<longrightarrow>
            (\<exists>it'. map_of (inventory st2) k = Some it' \<and> ledgerKept it it'
                \<and> (r2 = Inr () \<and> histOk it \<longrightarrow> histOk it')))
     \<and> (smartSyncPair ev sk e3 (sres, st) = (r3, sres', st3) \<longrightarrow>
            (\<exists>it'. map_of (inventory st3) k = Some it' \<and> ledgerKept it it'
                \<and> (r3 = Inr () \<and> histOk it \<longrightarrow> histOk it')))
     \<and> (exportItem ev skv4 (xres, st) = (r4, xres', st4) \<longrightarrow>
            (\<exists>it'. map_of (inventory st4) k = Some it' \<and> ledgerKept it it'
                \<and> (r4 = Inr () \<and> histOk it \<longrightarrow> histOk it')))"
proof (intro conjI impI)
  assume "pullItem ev e (pres, st) = (r1, pres', st1)"
  from pullItem_ledger[OF this ex]
  show "\<exists>it'. map_of (inventory st1) k = Some it' \<and> ledgerKept it it'
                \<and> (r1 = Inr () \<and> histOk it \<longrightarrow> histOk it')" .
next
  assume "pushItem ev einv skv (qres, st) = (r2, qres', st2)"
  from pushItem_keeps[OF this ex]
  show "\<exists>it'. map_of (inventory st2) k = Some it' \<and> ledgerKept it it'
                \<and> (r2 = Inr () \<and> histOk it \<longrightarrow> histOk it')"
    by (auto intro: ledgerKept_same histOk_same)
next
  assume run: "smartSyncPair ev sk e3 (sres, st) = (r3, sres', st3)"
  from smartSyncPair_any[OF run ex] obtain it' where
    1: "map_of (inventory st3) k = Some it'" "ledgerKept it it'" by blast
  have "r3 = Inr () \<and> histOk it \<longrightarrow> histOk it'"
  proof
    assume a: "r3 = Inr () \<and> histOk it"
    with run have "smartSyncPair ev sk e3 (sres, st) = (Inr (), sres', st3)" by simp
    from smartSyncPair_histOk[OF this ex] a 1 show "histOk it'" by auto
  qed
  with 1 show "\<exists>it'. map_of (inventory st3) k = Some it' \<and> ledgerKept it it'
                \<and> (r3 = Inr () \<and> histOk it \<longrightarrow> histOk it')" by blast
next
  assume "exportItem ev skv4 (xres, st) = (r4, xres', st4)"
  from exportItem_keeps[OF this ex]
  show "\<exists>it'. map_of (inventory st4) k = Some it' \<and> ledgerKept it it'
                \<and> (r4 = Inr () \<and> histOk it \<longrightarrow> histOk it')"
    by (auto intro: ledgerKept_same histOk_same)
qed

theorem ledger_append_only_witness:
  "map_of (inventory (storeOf widget)) ''X'' = Some widget
   \<and> histOk widget
   \<and> fst (pullItem demoEnv (widgetListing 7) (noPullResults, storeOf widget)) = Inr ()
   \<and> fst (pushItem demoEnv [] (Some ''X'') (noPushResults, storeOf widget)) = Inr ()
   \<and> fst (smartSyncPair demoEnv ''X'' (widgetListing 7) (noSyncResults, storeOf widget)) = Inr ()
   \<and> fst (exportItem demoEnv (Some ''X'') (noSyncResults, storeOf widget)) = Inr ()
   \<and> (\<exists>it'. map_of (inventory (snd (snd (pullItem demoEnv (widgetListing 7)
               (noPullResults, storeOf widget))))) ''X'' = Some it'
          \<and> ledgerKept widget it' \<and> histOk it')
   \<and> (\<exists>it'. map_of (inventory (snd (snd (pushItem demoEnv [] (Some ''X'')
               (noPushResults, storeOf widget))))) ''X'' = Some it'
          \<and> ledgerKept widget it' \<and> histOk it')
   \<and> (\<exists>it'. map_of (inventory (snd (snd (smartSyncPair demoEnv ''X'' (widgetListing 7)
               (noSyncResults, storeOf widget))))) ''X'' = Some it'
          \<and> ledgerKept widget it' \<and> histOk it')
   \<and> (\<exists>it'. map_of (inventory (snd (snd (exportItem demoEnv (Some ''X'')
               (noSyncResults, storeOf widget))))) ''X'' = Some it'
          \<and> ledgerKept widget it' \<and> histOk it')"
proof -
  let ?p1 = "pullItem demoEnv (widgetListing 7) (noPullResults, storeOf widget)"
  let ?p2 = "pushItem demoEnv [] (Some ''X'') (noPushResults, storeOf widget)"
  let ?p3 = "smartSyncPair demoEnv ''X'' (widgetListing 7) (noSyncResults, storeOf widget)"
  let ?p4 = "exportItem demoEnv (Some ''X'') (noSyncResults, storeOf widget)"
  have ex: "map_of (inventory (storeOf widget)) ''X'' = Some widget" by code_simp
  have hk: "histOk widget" by code_simp
  have ok1: "fst ?p1 = Inr ()" by code_simp
  have ok2: "fst ?p2 = Inr ()" by code_simp
  have ok3: "fst ?p3 = Inr ()" by code_simp
  have ok4: "fst ?p4 = Inr ()" by code_simp
  have e1: "?p1 = (Inr (), fst (snd ?p1), snd (snd ?p1))" using ok1 by (metis prod.collapse)
  have e2: "?p2 = (Inr (), fst (snd ?p2), snd (snd ?p2))" using ok2 by (metis prod.collapse)
  have e3: "?p3 = (Inr (), fst (snd ?p3), snd (snd ?p3))" using ok3 by (metis prod.collapse)
  have e4: "?p4 = (Inr (), fst (snd ?p4), snd (snd ?p4))" using ok4 by (metis prod.collapse)
  note T = ledger_append_only[OF ex]
  have A: "\<exists>it'. map_of (inventory (snd (snd ?p1))) ''X'' = Some it' \<and> ledgerKept widget it' \<and> histOk it'"
    using T[THEN conjunct1, THEN mp, OF e1] hk by blast
  have B: "\<exists>it'. map_of (inventory (snd (snd ?p2))) ''X'' = Some it' \<and> ledgerKept widget it' \<and> histOk it'"
    using T[THEN conjunct2, THEN conjunct1, THEN mp, OF e2] hk by blast
  have C: "\<exists>it'. map_of (inventory (snd (snd ?p3))) ''X'' = Some it' \<and> ledgerKept widget it' \<and> histOk it'"
    using T[THEN conjunct2, THEN conjunct2, THEN conjunct1, THEN mp, OF e3] hk by blast
  have D: "\<exists>it'. map_of (inventory (snd (snd ?p4))) ''X'' = Some it' \<and> ledgerKept widget it' \<and> histOk it'"
    using T[THEN conjunct2, THEN conjunct2, THEN conjunct2, THEN mp, OF e4] hk by blast
  from ex hk ok1 ok2 ok3 ok4 A B C D show ?thesis by blast
qed

text \<open>
  C8 as stated fails when an item fails partway: the store rejects the update of the
  record after the pull has appended the sale entry. The call completes with the failure
  in its errors list; the last entry of the history says 7 and the record still holds 10.
\<close>

theorem pull_failure_leaves_sale_entry:
  "histOk widget
   \<and> map_option pull_errors (resultsOf (pullFromEbay
        ((listingEnv [widgetListing 7])\<lparr>dataFault := storeFails UpdateItem ''write failed''\<rparr>) (storeOf widget)))
      = Some [(Some ''X'', ''write failed'')]
   \<and> map_option currentQty (recordAfter (pullFromEbay
        ((listingEnv [widgetListing 7])\<lparr>dataFault := storeFails UpdateItem ''write failed''\<rparr>) (storeOf widget)) ''X'')
      = Some 10
   \<and> map_option actions (recordAfter (pullFromEbay
        ((listingEnv [widgetListing 7])\<lparr>dataFault := storeFails UpdateItem ''write failed''\<rparr>) (storeOf widget)) ''X'')
      = Some [''EBAY_IMPORT'', ''EBAY_SALE'']
   \<and> map_option histOk (recordAfter (pullFromEbay
        ((listingEnv [widgetListing 7])\<lparr>dataFault := storeFails UpdateItem ''write failed''\<rparr>) (storeOf widget)) ''X'')
      = Some False"
  by code_simp

subsection \<open>Quantities stay non-negative\<close>



lemma qtyInv_inventory: "inventory st' = inventory st \<Longrightarrow> qtyInv st \<Longrightarrow> qtyInv st'"
  by (simp add: qtyInv_def)

































subsection \<open>The calls on concrete inputs\<close>

text \<open>
  C5. Smart sync run twice with the same single remote listing and, at first, an empty
  store: the first run imports the listing, and the second run imports it again and
  pairs nothing. The pairing map \<open>localMap\<close> is keyed by \<open>item.sku\<close> of
  \<open>formatItem\<close> objects, which is \<open>undefined\<close>, so no SKU of a listing is ever found in it.
\<close>

theorem smartSyncAll_second_run_imports_again:
  "map_option sync_imported (resultsOf (smartSyncAll (listingEnv [widgetListing 5]) emptyState))
      = Some [(''X'', ''Widget'')]
   \<and> map_option sync_imported (resultsOf (smartSyncAll (listingEnv [widgetListing 5])
        (runOp (SmartSync, listingEnv [widgetListing 5]) emptyState)))
      = Some [(''X'', ''Widget'')]
   \<and> map_option sync_updated (resultsOf (smartSyncAll (listingEnv [widgetListing 5])
        (runOp (SmartSync, listingEnv [widgetListing 5]) emptyState)))
      = Some []"
  by code_simp

text \<open>
  C7. Push with one local record and a store whose \<open>getItem\<close> rejects: the failure is
  caught and the loop goes on, but the entry of the errors list carries \<open>item.sku\<close> of a
  \<open>formatItem\<close> object, which is \<open>undefined\<close>, not the SKU of the record.
\<close>

theorem pushToEbay_error_without_key:
  "pushToEbay (demoEnv\<lparr>dataFault := storeFails GetItem ''connection lost''\<rparr>) (storeOf widget)
   = Inr (noPushResults\<lparr>push_errors := [(None, ''connection lost'')]\<rparr>, storeOf widget)"
  by code_simp

text \<open>
  C9. Push and smart sync with one local record and a fetch of the listings that
  rejects: the failure is swallowed and no error is reported, but the record is not
  created on eBay (no request is sent); both calls look the record up under
  \<open>item.sku\<close> of a \<open>formatItem\<close> object, which is \<open>undefined\<close>.
\<close>

theorem fetch_failure_exports_nothing:
  "listings demoEnv = Inl ''Account not authenticated''
   \<and> pushToEbay demoEnv (storeOf widget) = Inr (noPushResults, storeOf widget)
   \<and> smartSyncAll demoEnv (storeOf widget) = Inr (noSyncResults, storeOf widget)"
  by code_simp

end
